theory Spec2Isabelle
  imports Main "HOL-Library.Word" "HOL-Library.AList" "HOL-Library.Char_ord"
    "HOL-Library.List_Lexorder"
begin

section \<open>Colorcore routing: the values that flow through the router\<close>

text \<open>
  The development embeds \<^verbatim>\<open>colorcore/routing.py\<close>: the transaction formatter
  (\<^verbatim>\<open>Router.get_transaction_formatter\<close>), the command-line router
  (\<^verbatim>\<open>Router.__init__\<close>, \<^verbatim>\<open>Router._create_subparser\<close>,
  \<^verbatim>\<open>Router._execute_operation\<close>) and the HTTP handler
  (\<^verbatim>\<open>RpcServer.handle_request\<close>).

  Python byte strings are lists of 8-bit words, Python text is \<^typ>\<open>string\<close>.
\<close>

type_synonym bytes = "8 word list"

subsection \<open>The ledger transaction of \<^verbatim>\<open>bitcoin.core\<close>\<close>

text \<open>
  Only the attributes the formatter reads are kept. The attribute \<^verbatim>\<open>n\<close> of an
  outpoint is the field \<open>n_out\<close>: a constant of one letter would capture variables.
\<close>

record COutPoint =
  hash :: bytes
  n_out :: int

record CTxIn =
  prevout :: COutPoint
  scriptSig :: bytes
  nSequence :: int

record CTxOut =
  nValue :: int
  scriptPubKey :: bytes

record CTransaction =
  vin :: "CTxIn list"
  vout :: "CTxOut list"
  nLockTime :: int
  nVersion :: int

subsection \<open>Python values\<close>

text \<open>
  What an operation returns, what a parameter holds and what \<^verbatim>\<open>json.dumps\<close>
  receives: \<^verbatim>\<open>None\<close>, booleans, integers, text, lists, dictionaries with text
  keys (in the order they were written) and ledger transactions.
\<close>

datatype pyvalue =
    PNone
  | PBool bool
  | PInt int
  | PStr string
  | PList "pyvalue list"
  | PDict "(string \<times> pyvalue) list"
  | PTx CTransaction

text \<open>\<^verbatim>\<open>isinstance(v, bitcoin.core.CTransaction)\<close>\<close>

fun is_transaction :: "pyvalue \<Rightarrow> bool" where
  "is_transaction (PTx tx) = True"
| "is_transaction v = False"

subsection \<open>Hexadecimal text\<close>

text \<open>
  \<^verbatim>\<open>bitcoin.core.b2x\<close> is \<^verbatim>\<open>binascii.hexlify\<close>: two lower-case digits a byte;
  \<^verbatim>\<open>b2lx\<close> does the same on the reversed byte string.
\<close>

definition hexdigit :: "nat \<Rightarrow> char" where
  "hexdigit d = ''0123456789abcdef'' ! (d mod 16)"

definition b2x :: "bytes \<Rightarrow> string" where
  "b2x bs = concat (map (\<lambda>b. [hexdigit (unat b div 16), hexdigit (unat b mod 16)]) bs)"

definition b2lx :: "bytes \<Rightarrow> string" where
  "b2lx bs = b2x (rev bs)"

section \<open>The transaction formatter\<close>

text \<open>
  \<^verbatim>\<open>Router.get_transaction_formatter(format)\<close> returns one of two closures. The
  argument is any Python value: it is compared with the text \<^verbatim>\<open>'json'\<close> by
  \<^verbatim>\<open>==\<close>, which is false for a value of another type. The canonical serialisation
  \<^verbatim>\<open>transaction.serialize()\<close> belongs to \<^verbatim>\<open>bitcoin.core\<close> and is the
  parameter \<open>serialize\<close>.
\<close>

definition get_transaction_formatter ::
  "(CTransaction \<Rightarrow> bytes) \<Rightarrow> pyvalue \<Rightarrow> pyvalue \<Rightarrow> pyvalue" where
  "get_transaction_formatter serialize format =
     (if format = PStr ''json'' then
        (\<lambda>transaction. case transaction of
           PTx tx \<Rightarrow>
             PDict [
               (''version'', PInt (nVersion tx)),
               (''locktime'', PInt (nLockTime tx)),
               (''vin'', PList (map (\<lambda>input. PDict [
                   (''txid'', PStr (b2lx (hash (prevout input)))),
                   (''vout'', PInt (n_out (prevout input))),
                   (''sequence'', PInt (nSequence input)),
                   (''scriptSig'', PDict [(''hex'', PStr (b2x (scriptSig input)))])])
                 (vin tx))),
               (''vout'', PList (map (\<lambda>(index, output). PDict [
                   (''value'', PInt (nValue output)),
                   (''n'', PInt (int index)),
                   (''scriptPubKey'', PDict [(''hex'', PStr (b2x (scriptPubKey output)))])])
                 (enumerate 0 (vout tx))))]
         | _ \<Rightarrow> transaction)
      else
        (\<lambda>transaction. case transaction of
           PTx tx \<Rightarrow> PStr (b2x (serialize tx))
         | _ \<Rightarrow> transaction))"


section \<open>Exceptions\<close>

text \<open>
  The router tells four classes of exception apart: \<^verbatim>\<open>TypeError\<close>,
  \<^verbatim>\<open>ControllerError\<close> (declared in \<^verbatim>\<open>routing.py\<close>),
  \<^verbatim>\<open>openassets.transactions.TransactionBuilderError\<close> and every other subclass of
  \<^verbatim>\<open>Exception\<close>. A \<^verbatim>\<open>TypeError\<close> is raised by the code of an operation,
  with its message, or by the interpreter and the standard library; the message texts of
  those are not fixed here, and they carry their cause instead.
\<close>

datatype type_error =
    Raised string
  | ArgumentMismatch
  | NotCallable
  | NotSerializable pyvalue

datatype exn =
    TypeError type_error
  | IndexError
  | ArgumentError string
  | ControllerError string
  | TransactionBuilderError string string
  | OtherException string

text \<open>
  \<open>ControllerError m\<close>: \<^verbatim>\<open>str(error)\<close> is \<open>m\<close>.
  \<open>TransactionBuilderError k m\<close>: \<^verbatim>\<open>type(error).__name__\<close> is \<open>k\<close> (the class of
  the failure, a subclass of \<^verbatim>\<open>TransactionBuilderError\<close>) and \<^verbatim>\<open>str(error)\<close>
  is \<open>m\<close>. \<open>OtherException m\<close>: any other subclass of \<^verbatim>\<open>Exception\<close>, with its
  text. \<open>IndexError\<close>: indexing an empty text. \<open>ArgumentError flag\<close>:
  \<^verbatim>\<open>argparse\<close> refuses an option string that is registered already.
\<close>

text \<open>
  What the libraries around the router compute: the serialisation of a transaction
  (\<^verbatim>\<open>bitcoin.core\<close>) and the message text of an exception that the interpreter or
  the standard library raises.
\<close>

record library =
  serialize :: "CTransaction \<Rightarrow> bytes"
  error_text :: "exn \<Rightarrow> string"

text \<open>\<^verbatim>\<open>str(exception)\<close>\<close>

fun str_exn :: "library \<Rightarrow> exn \<Rightarrow> string" where
  "str_exn lib (TypeError (Raised m)) = m"
| "str_exn lib (ControllerError m) = m"
| "str_exn lib (TransactionBuilderError k m) = m"
| "str_exn lib (OtherException m) = m"
| "str_exn lib e = error_text lib e"

text \<open>\<^verbatim>\<open>s[0]\<close> on text: an \<^verbatim>\<open>IndexError\<close> when the text is empty.\<close>

fun first_char :: "string \<Rightarrow> exn + char" where
  "first_char [] = Inl IndexError"
| "first_char (c # cs) = Inr c"

section \<open>Operations and how Python calls them\<close>

text \<open>The kinds of \<^verbatim>\<open>inspect.Parameter\<close>.\<close>

datatype kind = POSITIONAL_OR_KEYWORD | VAR_POSITIONAL | KEYWORD_ONLY | VAR_KEYWORD

text \<open>
  One entry of \<^verbatim>\<open>inspect.signature(func).parameters\<close>. \<open>None\<close> in \<open>p_default\<close> or
  \<open>p_annotation\<close> is \<^verbatim>\<open>Parameter.empty\<close>.
\<close>

record parameter =
  p_name :: string
  p_kind :: kind
  p_default :: "pyvalue option"
  p_annotation :: "pyvalue option"

text \<open>The configuration file, as \<^verbatim>\<open>Configuration.__init__\<close> reads it.\<close>

record Configuration =
  rpc_url :: string
  version_byte :: int
  p2sh_version_byte :: int
  dust_limit :: int
  default_fees :: int
  cache_path :: string
  rpc_enabled :: bool
  rpc_port :: int

text \<open>
  The controller instance built for one invocation,
  \<^verbatim>\<open>self.controller(configuration, cache_factory, tx_parser, event_loop)\<close>. The cache
  factory and the event loop are the router's own and the same in every invocation; they
  are left out.
\<close>

record Controller =
  configuration :: Configuration
  tx_parser :: "pyvalue \<Rightarrow> pyvalue"

text \<open>
  A function of the controller class: its signature (the first parameter receives the
  controller instance), its docstring, and its coroutine run to completion on the bound
  arguments, which returns a value or raises.
\<close>

record operation =
  parameters :: "parameter list"
  doc :: "string option"
  body :: "Controller \<Rightarrow> (string \<times> pyvalue) list \<Rightarrow> exn + pyvalue"

text \<open>
  What \<^verbatim>\<open>getattr\<close> finds on the controller class: a function, some other value, or
  a method of the metaclass bound to the class. The class is the association list of the
  attributes of the class and its bases. It is an ordinary class: its metaclass is
  \<^verbatim>\<open>type\<close>, whose one attribute without a leading underscore is \<^verbatim>\<open>mro\<close>.
\<close>

datatype attribute = Function operation | Data pyvalue | MetaclassMethod

type_synonym controller_class = "(string \<times> attribute) list"

text \<open>What the router does to the outside, in order.\<close>

datatype event =
    Invoke Controller "(string \<times> pyvalue) list"
  | SendHeaders nat
  | WriteJson pyvalue
  | OutputJson pyvalue
  | OutputText string
  | PrintUsage

text \<open>
  \<open>Invoke c bound\<close>: the body of an operation starts with controller \<open>c\<close> and the bound
  arguments. \<open>SendHeaders status\<close>: \<^verbatim>\<open>create_response(status, message)\<close>, the status
  line with \<^verbatim>\<open>Content-Type: text/json\<close>. \<open>WriteJson data\<close>:
  \<^verbatim>\<open>json_response\<close> writes the JSON text of \<open>data\<close> and ends the response.
  \<open>OutputJson result\<close>: the command line writes the JSON text of \<open>result\<close> and a newline
  to its output stream. \<open>OutputText s\<close>: it writes \<open>s\<close>.
\<close>

text \<open>
  Binding \<^verbatim>\<open>f(controller, **kwargs)\<close>. The controller goes to the first
  positional-or-keyword parameter (or into \<^verbatim>\<open>*args\<close> when there is none). A keyword
  must name a positional-or-keyword or keyword-only parameter other than the one the
  controller took, unless the signature has a \<^verbatim>\<open>**\<close> parameter, which then collects
  it. A named parameter that received nothing takes its default, and the call fails when
  it has none. Every failure is a \<^verbatim>\<open>TypeError\<close>. The result lists the named
  parameters in declared order, then the \<^verbatim>\<open>**\<close> dictionary; the tuple of a
  \<^verbatim>\<open>*args\<close> parameter can only hold the controller and is left out.
\<close>

definition is_named :: "parameter \<Rightarrow> bool" where
  "is_named p = (p_kind p = POSITIONAL_OR_KEYWORD \<or> p_kind p = KEYWORD_ONLY)"

fun take_controller :: "parameter list \<Rightarrow> (string option \<times> parameter list) option" where
  "take_controller [] = None"
| "take_controller (p # ps) =
     (if p_kind p = POSITIONAL_OR_KEYWORD then Some (Some (p_name p), ps)
      else if p_kind p = VAR_POSITIONAL then Some (None, p # ps)
      else None)"

fun bind_named :: "parameter list \<Rightarrow> (string \<times> pyvalue) list \<Rightarrow> exn + (string \<times> pyvalue) list" where
  "bind_named [] kwargs = Inr []"
| "bind_named (p # ps) kwargs =
     (case (case map_of kwargs (p_name p) of
              Some v \<Rightarrow> Some v
            | None \<Rightarrow> p_default p) of
        None \<Rightarrow> Inl (TypeError ArgumentMismatch)
      | Some v \<Rightarrow>
          (case bind_named ps kwargs of
             Inl e \<Rightarrow> Inl e
           | Inr bound \<Rightarrow> Inr ((p_name p, v) # bound)))"

definition bind_arguments ::
  "parameter list \<Rightarrow> (string \<times> pyvalue) list \<Rightarrow> exn + (string \<times> pyvalue) list" where
  "bind_arguments ps kwargs =
     (case take_controller ps of
        None \<Rightarrow> Inl (TypeError ArgumentMismatch)
      | Some (taken, rest) \<Rightarrow>
          (let named = filter is_named rest;
               var_keyword = filter (\<lambda>p. p_kind p = VAR_KEYWORD) rest;
               extra = filter (\<lambda>(k, v). k \<notin> set (map p_name named)) kwargs
           in if list_ex (\<lambda>(k, v). Some k = taken) kwargs then Inl (TypeError ArgumentMismatch)
              else if extra \<noteq> [] \<and> var_keyword = [] then Inl (TypeError ArgumentMismatch)
              else
                (case bind_named named kwargs of
                   Inl e \<Rightarrow> Inl e
                 | Inr bound \<Rightarrow>
                     Inr (bound @ map (\<lambda>p. (p_name p, PDict extra)) var_keyword))))"

text \<open>
  Calling an attribute of the controller class: a function binds its arguments and runs;
  any other value is not callable; \<^verbatim>\<open>mro\<close> takes no argument, and the call hands
  it the controller.
\<close>

definition call_function ::
  "operation \<Rightarrow> Controller \<Rightarrow> (string \<times> pyvalue) list \<Rightarrow> event list \<times> (exn + pyvalue)" where
  "call_function f controller kwargs =
     (case bind_arguments (parameters f) kwargs of
        Inl e \<Rightarrow> ([], Inl e)
      | Inr bound \<Rightarrow> ([Invoke controller bound], body f controller bound))"

fun call_attribute ::
  "attribute \<Rightarrow> Controller \<Rightarrow> (string \<times> pyvalue) list \<Rightarrow> event list \<times> (exn + pyvalue)" where
  "call_attribute (Function f) controller kwargs = call_function f controller kwargs"
| "call_attribute (Data v) controller kwargs = ([], Inl (TypeError NotCallable))"
| "call_attribute MetaclassMethod controller kwargs = ([], Inl (TypeError ArgumentMismatch))"

text \<open>
  \<^verbatim>\<open>json.dumps\<close> raises a \<^verbatim>\<open>TypeError\<close> on a value it cannot encode: among the
  values here, one that holds a transaction.
\<close>

fun json_serializable :: "pyvalue \<Rightarrow> bool" where
  "json_serializable (PTx tx) = False"
| "json_serializable (PList vs) = (\<forall>v \<in> set vs. json_serializable v)"
| "json_serializable (PDict kvs) = (\<forall>v \<in> set (map snd kvs). json_serializable v)"
| "json_serializable v = True"


section \<open>The HTTP handler\<close>

text \<open>
  The pattern class \<^verbatim>\<open>\w\<close> on text: letters, digits and the underscore. A
  \<^typ>\<open>char\<close> stands for the code point of the same number; above 127 the letters and
  digits of Latin-1 are word characters too.
\<close>

definition is_word_char :: "char \<Rightarrow> bool" where
  "is_word_char c =
     (let k = (of_char c :: nat)
      in (48 \<le> k \<and> k \<le> 57) \<or> (65 \<le> k \<and> k \<le> 90) \<or> k = 95 \<or> (97 \<le> k \<and> k \<le> 122)
         \<or> k = 170 \<or> k = 178 \<or> k = 179 \<or> k = 181 \<or> k = 185 \<or> k = 186
         \<or> (188 \<le> k \<and> k \<le> 190) \<or> (192 \<le> k \<and> k \<le> 214) \<or> (216 \<le> k \<and> k \<le> 246)
         \<or> 248 \<le> k)"

text \<open>
  \<^verbatim>\<open>re.search('^/(?P<operation>\w+)$', path)\<close> and the group \<^verbatim>\<open>operation\<close> of
  the match. \<^verbatim>\<open>^\<close> holds at the start of the text only. \<^verbatim>\<open>\w+\<close> is greedy and
  what follows it is no word character, so the group is the longest run of word
  characters after the slash. Without the flag \<^verbatim>\<open>MULTILINE\<close>, \<^verbatim>\<open>$\<close> holds at
  the end of the text and also just before a newline that ends the text.
\<close>

definition match_path :: "string \<Rightarrow> string option" where
  "match_path path =
     (case path of
        [] \<Rightarrow> None
      | c # rest \<Rightarrow>
          (let operation = takeWhile is_word_char rest;
               tail = dropWhile is_word_char rest
           in if c = CHR ''/'' \<and> operation \<noteq> [] \<and> (tail = [] \<or> tail = [CHR 0x0A])
              then Some operation else None))"

text \<open>
  \<^verbatim>\<open>json_response(response, data)\<close>: the JSON text of \<open>data\<close> is written and the
  response ended, unless \<^verbatim>\<open>json.dumps\<close> raises. The result is what was done and
  the exception that escapes, if any.
\<close>

definition json_response :: "pyvalue \<Rightarrow> event list \<times> exn option" where
  "json_response data =
     (if json_serializable data then ([WriteJson data], None)
      else ([], Some (TypeError (NotSerializable data))))"

text \<open>\<^verbatim>\<open>RpcServer.error(code, error, message)\<close>: status 400 and the error envelope.\<close>

definition error :: "int \<Rightarrow> string \<Rightarrow> event list \<times> exn option" where
  "error code err =
     (let (written, raised) =
        json_response (PDict [(''error'', PDict [(''code'', PInt code), (''message'', PStr err)])])
      in (SendHeaders 400 # written, raised))"

text \<open>
  \<^verbatim>\<open>getattr(self.controller, operation_name, None)\<close>: the attribute of the class
  or of a base; failing that the attribute of the metaclass; failing that
  \<^verbatim>\<open>None\<close>. The attributes of \<^verbatim>\<open>type\<close> and \<^verbatim>\<open>object\<close> whose names
  start with an underscore are not listed: the handler rejects such a name before it looks
  at what was found.
\<close>

definition getattr :: "controller_class \<Rightarrow> string \<Rightarrow> attribute" where
  "getattr cls name =
     (case map_of cls name of
        Some a \<Rightarrow> a
      | None \<Rightarrow> if name = ''mro'' then MetaclassMethod else Data PNone)"

text \<open>\<^verbatim>\<open>operation is None\<close>\<close>

fun is_None :: "attribute \<Rightarrow> bool" where
  "is_None (Data PNone) = True"
| "is_None a = False"

text \<open>
  The dictionary that \<^verbatim>\<open>urllib.parse.parse_qs\<close> returns for the body is the
  input \<open>post_vars\<close>: it maps the name of a form field to the list of its values, in
  text. \<^verbatim>\<open>post_vars.pop('txformat', 'json')\<close> returns the value stored under the
  key, which is a list, or the default, which is text, and removes the key.
\<close>

definition pop_txformat :: "(string \<times> string list) list \<Rightarrow> pyvalue \<times> (string \<times> string list) list" where
  "pop_txformat post_vars =
     ((case map_of post_vars ''txformat'' of
         None \<Rightarrow> PStr ''json''
       | Some vs \<Rightarrow> PList (map PStr vs)),
      AList.delete ''txformat'' post_vars)"

text \<open>The keyword arguments \<^verbatim>\<open>**post_vars\<close>: each value is the list of the field.\<close>

definition keyword_arguments :: "(string \<times> string list) list \<Rightarrow> (string \<times> pyvalue) list" where
  "keyword_arguments post_vars = map (\<lambda>(k, vs). (k, PList (map PStr vs))) post_vars"

text \<open>
  The outer \<^verbatim>\<open>try\<close> block of \<^verbatim>\<open>handle_request\<close>: what it does and the
  exception that escapes it, if any. The test of the operation name is evaluated from
  left to right and stops at the first disjunct that holds.
\<close>

definition try_request ::
  "library \<Rightarrow> Configuration \<Rightarrow> controller_class \<Rightarrow> string \<Rightarrow> (string \<times> string list) list
     \<Rightarrow> event list \<times> exn option" where
  "try_request lib cfg cls path post_vars =
     (case match_path path of
        None \<Rightarrow> error 102 ''The request path is invalid''
      | Some operation_name \<Rightarrow>
          (let operation = getattr cls operation_name;
               invalid = error 103 (''The operation name '' @ operation_name @ '' is invalid'')
           in if operation_name = [] then invalid
              else
                (case first_char operation_name of
                   Inl e \<Rightarrow> ([], Some e)
                 | Inr c \<Rightarrow>
                     if c = CHR ''_'' \<or> is_None operation then invalid
                     else
                       (let (format, post_vars') = pop_txformat post_vars;
                            tx_parser = get_transaction_formatter (serialize lib) format;
                            controller = \<lparr>configuration = cfg, tx_parser = tx_parser\<rparr>
                        in case call_attribute operation controller (keyword_arguments post_vars') of
                             (evs, Inl (TypeError cause)) \<Rightarrow>
                               (let (written, raised) = error 104 ''Invalid parameters provided''
                                in (evs @ written, raised))
                           | (evs, Inl (ControllerError m)) \<Rightarrow>
                               (let (written, raised) = error 201 m
                                in (evs @ written, raised))
                           | (evs, Inl (TransactionBuilderError k m)) \<Rightarrow>
                               (let (written, raised) = error 301 k
                                in (evs @ written, raised))
                           | (evs, Inl e) \<Rightarrow> (evs, Some e)
                           | (evs, Inr result) \<Rightarrow>
                               (let (written, raised) = json_response result
                                in (evs @ SendHeaders 200 # written, raised))))))"

text \<open>
  \<^verbatim>\<open>RpcServer.handle_request\<close>: an exception that escapes the block is answered
  with status 500 and the envelope of code 0. An exception raised while that answer is
  written escapes the handler. Keeping the connection alive after a success is the
  transport's business and is not modelled.
\<close>

definition handle_request ::
  "library \<Rightarrow> Configuration \<Rightarrow> controller_class \<Rightarrow> string \<Rightarrow> (string \<times> string list) list
     \<Rightarrow> event list \<times> exn option" where
  "handle_request lib cfg cls path post_vars =
     (case try_request lib cfg cls path post_vars of
        (evs, None) \<Rightarrow> (evs, None)
      | (evs, Some exception) \<Rightarrow>
          (let (written, raised) =
             json_response (PDict [(''error'', PDict [
               (''code'', PInt 0),
               (''message'', PStr ''Internal server error''),
               (''details'', PStr (str_exn lib exception))])])
           in (evs @ SendHeaders 500 # written, raised)))"

section \<open>The command-line router\<close>

subsection \<open>The grammar\<close>

text \<open>
  The two calls the router makes on a subparser:
  \<^verbatim>\<open>add_argument(name, help=h)\<close> is \<open>Positional name h\<close> and
  \<^verbatim>\<open>add_argument('--' + name, help=h, nargs='?', default=d)\<close> is
  \<open>Optional (''--'' @ name) h d\<close>.
\<close>

datatype argument =
    Positional string pyvalue
  | Optional string pyvalue pyvalue

fun option_strings :: "argument list \<Rightarrow> string list" where
  "option_strings [] = []"
| "option_strings (Positional name h # rest) = option_strings rest"
| "option_strings (Optional flag h d # rest) = flag # option_strings rest"

text \<open>
  A new subparser has the option strings \<^verbatim>\<open>-h\<close> and \<^verbatim>\<open>--help\<close>.
  \<^verbatim>\<open>add_argument\<close> raises an \<^verbatim>\<open>ArgumentError\<close> for an option string that is
  taken; a positional argument has none.
\<close>

fun add_argument :: "argument list \<Rightarrow> argument \<Rightarrow> exn + argument list" where
  "add_argument args (Positional name h) = Inr (args @ [Positional name h])"
| "add_argument args (Optional flag h d) =
     (if flag \<in> set ([''-h'', ''--help''] @ option_strings args) then Inl (ArgumentError flag)
      else Inr (args @ [Optional flag h d]))"

text \<open>
  \<^verbatim>\<open>Router.extra_parameters\<close>: one entry, of name, help text and default. The help
  text has a name of its own here.
\<close>

definition txformat_help :: string where
  "txformat_help = ''Format of transactions if a transaction is returned ('raw' or 'json')''"

definition extra_parameters :: "(string \<times> string \<times> pyvalue) list" where
  "extra_parameters = [(''txformat'', txformat_help, PStr ''json'')]"

text \<open>The first loop of \<^verbatim>\<open>Router._create_subparser\<close>, over the signature.\<close>

fun add_parameters :: "argument list \<Rightarrow> parameter list \<Rightarrow> exn + argument list" where
  "add_parameters args [] = Inr args"
| "add_parameters args (arg # rest) =
     (if p_name arg = ''self'' then add_parameters args rest
      else if p_kind arg \<noteq> POSITIONAL_OR_KEYWORD then add_parameters args rest
      else
        (let arg_help = (case p_annotation arg of None \<Rightarrow> PNone | Some a \<Rightarrow> a)
         in case (case p_default arg of
                    None \<Rightarrow> add_argument args (Positional (p_name arg) arg_help)
                  | Some d \<Rightarrow> add_argument args (Optional (''--'' @ p_name arg) arg_help d)) of
              Inl e \<Rightarrow> Inl e
            | Inr args' \<Rightarrow> add_parameters args' rest))"

text \<open>The second loop, over \<^verbatim>\<open>self.extra_parameters\<close>.\<close>

fun add_extra_parameters ::
  "argument list \<Rightarrow> (string \<times> string \<times> pyvalue) list \<Rightarrow> exn + argument list" where
  "add_extra_parameters args [] = Inr args"
| "add_extra_parameters args ((name, help, dflt) # rest) =
     (case add_argument args (Optional (''--'' @ name) (PStr help) dflt) of
        Inl e \<Rightarrow> Inl e
      | Inr args' \<Rightarrow> add_extra_parameters args' rest)"

text \<open>
  \<^verbatim>\<open>Router._create_subparser\<close>: the arguments of the subparser of \<open>func\<close>. Its
  handler \<^verbatim>\<open>_func\<close> is set by \<open>add_operations\<close> below.
\<close>

definition create_subparser :: "operation \<Rightarrow> exn + argument list" where
  "create_subparser func =
     (case add_parameters [] (parameters func) of
        Inl e \<Rightarrow> Inl e
      | Inr args \<Rightarrow> add_extra_parameters args extra_parameters)"

text \<open>
  A subparser: the name it was added under, its help text, its handler \<^verbatim>\<open>_func\<close>
  and its arguments.
\<close>

datatype handler = RunRpcServer | ExecuteOperation operation

record subparser =
  sp_name :: string
  sp_help :: "string option"
  sp_func :: handler
  sp_arguments :: "argument list"

text \<open>
  \<^verbatim>\<open>inspect.getmembers(self.controller, predicate=inspect.isfunction)\<close>: the
  attributes of the class and its bases that are functions, sorted by name. The
  attributes of the metaclass are not among the names it goes through.
\<close>

definition getmembers :: "controller_class \<Rightarrow> (string \<times> operation) list" where
  "getmembers cls =
     List.map_filter
       (\<lambda>name. case getattr cls name of Function f \<Rightarrow> Some (name, f) | _ \<Rightarrow> None)
       (sort (remdups (map fst cls)))"

text \<open>The loop of \<^verbatim>\<open>Router.__init__\<close> over the members.\<close>

fun add_operations :: "subparser list \<Rightarrow> (string \<times> operation) list \<Rightarrow> exn + subparser list" where
  "add_operations subparsers [] = Inr subparsers"
| "add_operations subparsers ((name, function) # rest) =
     (case first_char name of
        Inl e \<Rightarrow> Inl e
      | Inr c \<Rightarrow>
          if c \<noteq> CHR ''_'' then
            (case create_subparser function of
               Inl e \<Rightarrow> Inl e
             | Inr args \<Rightarrow>
                 add_operations
                   (subparsers @ [\<lparr>sp_name = name, sp_help = doc function,
                                   sp_func = ExecuteOperation function, sp_arguments = args\<rparr>])
                   rest)
          else add_operations subparsers rest)"

text \<open>
  \<^verbatim>\<open>Router.__init__\<close>: the subparsers in the order of the calls of
  \<^verbatim>\<open>add_parser\<close>, the built-in \<^verbatim>\<open>server\<close> first.
\<close>

definition Router_init :: "controller_class \<Rightarrow> exn + subparser list" where
  "Router_init cls =
     add_operations
       [\<lparr>sp_name = ''server'', sp_help = Some ''Starts the Colorcore JSON/RPC server.'',
         sp_func = RunRpcServer, sp_arguments = []\<rparr>]
       (getmembers cls)"


subsection \<open>Parsing arguments\<close>

text \<open>
  \<^verbatim>\<open>argparse\<close> on the grammars above, for command lines in which every token that
  starts with a dash is one of the registered flags, written in full. Any other such
  token (an abbreviation, \<^verbatim>\<open>--name=value\<close>, \<^verbatim>\<open>--help\<close>, a negative
  number, \<^verbatim>\<open>--\<close>) is outside this model. A flag with \<^verbatim>\<open>nargs='?'\<close> takes
  the next token as its value when there is one that does not start with a dash, and
  \<^verbatim>\<open>None\<close> otherwise; any other token goes to the next positional argument.
  Values are text: no \<^verbatim>\<open>type\<close> is given to \<^verbatim>\<open>add_argument\<close>. A command line
  that \<^verbatim>\<open>argparse\<close> rejects ends the process with its usage message.
\<close>

datatype 'a parsed = Parsed 'a | UsageError | Unmodelled

fun starts_with_dash :: "string \<Rightarrow> bool" where
  "starts_with_dash [] = False"
| "starts_with_dash (c # cs) = (c = CHR ''-'')"

fun dest :: "argument \<Rightarrow> string" where
  "dest (Positional name h) = name"
| "dest (Optional flag h d) = drop 2 flag"

fun initial_value :: "argument \<Rightarrow> pyvalue" where
  "initial_value (Positional name h) = PNone"
| "initial_value (Optional flag h d) = d"

text \<open>The namespace before any token is read: the default of the first argument of each name.\<close>

fun defaults :: "(string \<times> pyvalue) list \<Rightarrow> argument list \<Rightarrow> (string \<times> pyvalue) list" where
  "defaults namespace [] = namespace"
| "defaults namespace (a # rest) =
     (if dest a \<in> set (map fst namespace) then defaults namespace rest
      else defaults (namespace @ [(dest a, initial_value a)]) rest)"

fun positionals :: "argument list \<Rightarrow> string list" where
  "positionals [] = []"
| "positionals (Positional name h # rest) = name # positionals rest"
| "positionals (Optional flag h d # rest) = positionals rest"

fun parse_tokens ::
  "string list \<Rightarrow> string list \<Rightarrow> string list \<Rightarrow> (string \<times> pyvalue) list
     \<Rightarrow> (string \<times> pyvalue) list parsed" where
  "parse_tokens flags pending [] namespace =
     (if pending = [] then Parsed namespace else UsageError)"
| "parse_tokens flags pending (t # ts) namespace =
     (if starts_with_dash t then
        (if t \<in> set flags then
           (case ts of
              [] \<Rightarrow> parse_tokens flags pending [] (AList.update (drop 2 t) PNone namespace)
            | v # ts' \<Rightarrow>
                if starts_with_dash v
                then parse_tokens flags pending ts (AList.update (drop 2 t) PNone namespace)
                else parse_tokens flags pending ts' (AList.update (drop 2 t) (PStr v) namespace))
         else Unmodelled)
      else
        (case pending of
           [] \<Rightarrow> UsageError
         | p # pending' \<Rightarrow> parse_tokens flags pending' ts (AList.update p (PStr t) namespace)))"

text \<open>
  \<^verbatim>\<open>vars(subparser.parse_args(tokens))\<close> without the entry \<^verbatim>\<open>_func\<close>, which
  is kept in the subparser. A parameter called \<^verbatim>\<open>_func\<close> would overwrite the
  handler; such a grammar is outside this model.
\<close>

definition parse_args :: "argument list \<Rightarrow> string list \<Rightarrow> (string \<times> pyvalue) list parsed" where
  "parse_args args tokens =
     (if ''_func'' \<in> set (map dest args) then Unmodelled
      else parse_tokens (option_strings args) (positionals args) tokens (defaults [] args))"

subsection \<open>Running a subcommand\<close>

text \<open>
  \<^verbatim>\<open>Router._execute_operation\<close>: the function \<^verbatim>\<open>decorator\<close> it returns,
  called with the keywords \<open>keywords\<close>. \<^verbatim>\<open>txformat\<close> is a keyword-only parameter
  of \<^verbatim>\<open>decorator\<close> and the other keywords go to the operation. The result is what
  was done and the exception that escapes, if any.
\<close>

definition execute_operation ::
  "library \<Rightarrow> Configuration \<Rightarrow> operation \<Rightarrow> (string \<times> pyvalue) list \<Rightarrow> event list \<times> exn option" where
  "execute_operation lib cfg function keywords =
     (case map_of keywords ''txformat'' of
        None \<Rightarrow> ([], Some (TypeError ArgumentMismatch))
      | Some txformat \<Rightarrow>
          (let kwargs = AList.delete ''txformat'' keywords;
               controller = \<lparr>configuration = cfg,
                             tx_parser = get_transaction_formatter (serialize lib) txformat\<rparr>
           in case call_function function controller kwargs of
                (evs, Inr result) \<Rightarrow>
                  if json_serializable result then (evs @ [OutputJson result], None)
                  else (evs, Some (TypeError (NotSerializable result)))
              | (evs, Inl (ControllerError m)) \<Rightarrow>
                  (evs @ [OutputText (''Error: '' @ m @ [CHR 0x0A])], None)
              | (evs, Inl (TransactionBuilderError k m)) \<Rightarrow>
                  (evs @ [OutputText (''Error: '' @ k @ [CHR 0x0A])], None)
              | (evs, Inl e) \<Rightarrow> (evs, Some e)))"

text \<open>How an invocation of the command line ends.\<close>

datatype outcome = Completed | Propagated exn | UsageExit | ServesForever | NotModelled

text \<open>Decimal text of an integer, for the port in the start-up message.\<close>

fun digits :: "nat \<Rightarrow> string" where
  "digits n = (if n < 10 then [char_of (48 + n)] else digits (n div 10) @ [char_of (48 + n mod 10)])"

definition str_int :: "int \<Rightarrow> string" where
  "str_int i = (if i < 0 then CHR ''-'' # digits (nat (- i)) else digits (nat i))"

text \<open>
  \<^verbatim>\<open>Router._run_rpc_server\<close>: an error line when the configuration has no RPC
  section; otherwise the server is started and the event loop runs forever.
\<close>

definition run_rpc_server :: "Configuration \<Rightarrow> event list \<times> outcome" where
  "run_rpc_server cfg =
     (if \<not> rpc_enabled cfg
      then ([OutputText (''Error: RPC must be enabled in the configuration.'' @ [CHR 0x0A])],
            Completed)
      else ([OutputText (''Starting RPC server on port '' @ str_int (rpc_port cfg) @ ''...''
                         @ [CHR 0x0A])],
            ServesForever))"

text \<open>
  \<^verbatim>\<open>Router.parse(args)\<close>. The first token chooses the subparser; of two subparsers
  added under one name, \<^verbatim>\<open>argparse\<close> keeps the one added last. Without a token
  there is no \<^verbatim>\<open>_func\<close> and the usage text is printed.
\<close>

definition parse ::
  "library \<Rightarrow> Configuration \<Rightarrow> subparser list \<Rightarrow> string list \<Rightarrow> event list \<times> outcome" where
  "parse lib cfg subparsers args =
     (case args of
        [] \<Rightarrow> ([PrintUsage], Completed)
      | command # tokens \<Rightarrow>
          if starts_with_dash command then ([], NotModelled)
          else
            (case find (\<lambda>sp. sp_name sp = command) (rev subparsers) of
               None \<Rightarrow> ([], UsageExit)
             | Some sp \<Rightarrow>
                 (case parse_args (sp_arguments sp) tokens of
                    Unmodelled \<Rightarrow> ([], NotModelled)
                  | UsageError \<Rightarrow> ([], UsageExit)
                  | Parsed namespace \<Rightarrow>
                      (case sp_func sp of
                         RunRpcServer \<Rightarrow> run_rpc_server cfg
                       | ExecuteOperation function \<Rightarrow>
                           (case execute_operation lib cfg function namespace of
                              (evs, None) \<Rightarrow> (evs, Completed)
                            | (evs, Some e) \<Rightarrow> (evs, Propagated e))))))"


section \<open>Sample inputs\<close>

text \<open>
  A library, a configuration, a transaction with one input and one output, and a few
  operations, for evaluating the router on concrete requests: an operation that returns a
  transaction through the formatter of its controller, one declared
  \<^verbatim>\<open>(self, required_a, optional_b=5)\<close> that returns its bound arguments, one that
  raises a given exception, and one that returns a fixed text.
\<close>

definition sample_library :: library where
  "sample_library = \<lparr>serialize = (\<lambda>tx. [0x01, 0x00]), error_text = (\<lambda>e. ''error'')\<rparr>"

definition sample_configuration :: Configuration where
  "sample_configuration =
     \<lparr>rpc_url = ''http://localhost:8332'', version_byte = 0, p2sh_version_byte = 5,
      dust_limit = 600, default_fees = 10000, cache_path = ''cache.db'',
      rpc_enabled = False, rpc_port = 8080\<rparr>"

definition self_parameter :: parameter where
  "self_parameter =
     \<lparr>p_name = ''self'', p_kind = POSITIONAL_OR_KEYWORD, p_default = None, p_annotation = None\<rparr>"

definition sample_transaction :: CTransaction where
  "sample_transaction =
     \<lparr>vin = [\<lparr>prevout = \<lparr>hash = [0x01, 0xab], n_out = 3\<rparr>, scriptSig = [0xff], nSequence = 7\<rparr>],
      vout = [\<lparr>nValue = 600, scriptPubKey = [0x0a]\<rparr>],
      nLockTime = 0, nVersion = 1\<rparr>"

definition show_transaction :: operation where
  "show_transaction =
     \<lparr>parameters = [self_parameter], doc = None,
      body = (\<lambda>controller bound. Inr (tx_parser controller (PTx sample_transaction)))\<rparr>"

definition sample_operation :: operation where
  "sample_operation =
     \<lparr>parameters = [self_parameter,
        \<lparr>p_name = ''required_a'', p_kind = POSITIONAL_OR_KEYWORD, p_default = None,
         p_annotation = None\<rparr>,
        \<lparr>p_name = ''optional_b'', p_kind = POSITIONAL_OR_KEYWORD, p_default = Some (PInt 5),
         p_annotation = None\<rparr>],
      doc = None,
      body = (\<lambda>controller bound. Inr (PDict bound))\<rparr>"

definition failing_operation :: "exn \<Rightarrow> operation" where
  "failing_operation e =
     \<lparr>parameters = [self_parameter], doc = None, body = (\<lambda>controller bound. Inl e)\<rparr>"

definition sample_ping :: operation where
  "sample_ping =
     \<lparr>parameters = [self_parameter], doc = None,
      body = (\<lambda>controller bound. Inr (PStr ''pong''))\<rparr>"

section \<open>Properties of the formatter\<close>

lemma enumerate_nth_zero: "j < length xs \<Longrightarrow> enumerate 0 xs ! j = (j, xs ! j)"
  by (simp add: nth_enumerate_eq)

lemma hex_example:
  "b2lx [0x01, 0xab] = ''ab01'' \<and> b2x [0xff] = ''ff'' \<and> b2x [0x0a] = ''0a''
   \<and> b2x [0x01, 0x00] = ''0100''"
  by (simp add: b2lx_def b2x_def hexdigit_def)

text \<open>
  C7. The formatter selected by \<^verbatim>\<open>"json"\<close> renders a transaction as a dictionary
  of its version, its lock time, one entry for each input (the hash of the previous
  output as \<^verbatim>\<open>txid\<close>, its index as \<^verbatim>\<open>vout\<close>, the sequence number and the hex
  text of the signature script) and one entry for each output (its value, its index and
  the hex text of its script). The formatter selected by \<^verbatim>\<open>"raw"\<close> renders it as the
  hex text of its serialisation.
\<close>

theorem formatter_renders_transaction:
  "(\<exists>ins outs.
      get_transaction_formatter ser (PStr ''json'') (PTx tx) =
        PDict [(''version'', PInt (nVersion tx)), (''locktime'', PInt (nLockTime tx)),
               (''vin'', PList ins), (''vout'', PList outs)]
      \<and> length ins = length (vin tx)
      \<and> (\<forall>i < length (vin tx).
            ins ! i = PDict [(''txid'', PStr (b2lx (hash (prevout (vin tx ! i))))),
                             (''vout'', PInt (n_out (prevout (vin tx ! i)))),
                             (''sequence'', PInt (nSequence (vin tx ! i))),
                             (''scriptSig'', PDict [(''hex'', PStr (b2x (scriptSig (vin tx ! i))))])])
      \<and> length outs = length (vout tx)
      \<and> (\<forall>j < length (vout tx).
            outs ! j = PDict [(''value'', PInt (nValue (vout tx ! j))),
                              (''n'', PInt (int j)),
                              (''scriptPubKey'', PDict [(''hex'', PStr (b2x (scriptPubKey (vout tx ! j))))])]))
   \<and> get_transaction_formatter ser (PStr ''raw'') (PTx tx) = PStr (b2x (ser tx))"
  by (simp add: get_transaction_formatter_def enumerate_nth_zero)

theorem formatter_renders_transaction_witness:
  "(0::nat) < length (vin \<lparr>vin = [\<lparr>prevout = \<lparr>hash = [0x01, 0xab], n_out = 3\<rparr>, scriptSig = [0xff], nSequence = 7\<rparr>],
                           vout = [\<lparr>nValue = 600, scriptPubKey = [0x0a]\<rparr>], nLockTime = 0, nVersion = 1\<rparr>)
   \<and> (\<exists>ins outs.
      get_transaction_formatter (\<lambda>tx. [0x01, 0x00]) (PStr ''json'')
        (PTx \<lparr>vin = [\<lparr>prevout = \<lparr>hash = [0x01, 0xab], n_out = 3\<rparr>, scriptSig = [0xff], nSequence = 7\<rparr>],
              vout = [\<lparr>nValue = 600, scriptPubKey = [0x0a]\<rparr>], nLockTime = 0, nVersion = 1\<rparr>) =
        PDict [(''version'', PInt 1), (''locktime'', PInt 0), (''vin'', PList ins), (''vout'', PList outs)]
      \<and> ins ! 0 = PDict [(''txid'', PStr ''ab01''), (''vout'', PInt 3), (''sequence'', PInt 7),
                          (''scriptSig'', PDict [(''hex'', PStr ''ff'')])]
      \<and> outs ! 0 = PDict [(''value'', PInt 600), (''n'', PInt 0),
                           (''scriptPubKey'', PDict [(''hex'', PStr ''0a'')])])
   \<and> get_transaction_formatter (\<lambda>tx. [0x01, 0x00]) (PStr ''raw'')
        (PTx \<lparr>vin = [\<lparr>prevout = \<lparr>hash = [0x01, 0xab], n_out = 3\<rparr>, scriptSig = [0xff], nSequence = 7\<rparr>],
              vout = [\<lparr>nValue = 600, scriptPubKey = [0x0a]\<rparr>], nLockTime = 0, nVersion = 1\<rparr>) = PStr ''0100''"
  using formatter_renders_transaction [of "\<lambda>tx. [0x01, 0x00]"
      "\<lparr>vin = [\<lparr>prevout = \<lparr>hash = [0x01, 0xab], n_out = 3\<rparr>, scriptSig = [0xff], nSequence = 7\<rparr>],
        vout = [\<lparr>nValue = 600, scriptPubKey = [0x0a]\<rparr>], nLockTime = 0, nVersion = 1\<rparr>"]
    hex_example
  by auto

text \<open>
  C8. A value that is not a transaction is returned unchanged by the formatter of every
  format, and the formatter of every format other than \<^verbatim>\<open>"json"\<close> is the formatter
  of \<^verbatim>\<open>"raw"\<close>.
\<close>

theorem formatter_passes_other_values:
  "(\<not> is_transaction v \<longrightarrow> get_transaction_formatter ser X v = v)
   \<and> (X \<noteq> PStr ''json'' \<longrightarrow>
        get_transaction_formatter ser X = get_transaction_formatter ser (PStr ''raw''))"
  by (cases v) (simp_all add: get_transaction_formatter_def)

theorem formatter_passes_other_values_witness:
  "\<not> is_transaction (PInt 42) \<and> PStr ''xml'' \<noteq> PStr ''json''
   \<and> get_transaction_formatter (\<lambda>tx. []) (PStr ''xml'') (PInt 42) = PInt 42
   \<and> get_transaction_formatter (\<lambda>tx. []) (PStr ''xml'') = get_transaction_formatter (\<lambda>tx. []) (PStr ''raw'')"
proof -
  have not_tx: "\<not> is_transaction (PInt 42)"
    by simp
  have not_json: "PStr ''xml'' \<noteq> PStr ''json''"
    by simp
  from formatter_passes_other_values [of "PInt 42" "\<lambda>tx. []" "PStr ''xml''"] not_tx not_json
  show ?thesis
    by blast
qed

section \<open>Properties of the HTTP handler\<close>

lemma not_word_char_examples:
  "\<not> is_word_char (CHR 0x0A)" "\<not> is_word_char CHR ''/''" "is_word_char CHR ''_''"
  by (simp_all add: is_word_char_def)

lemma takeWhile_all: "\<forall>c \<in> set name. P c \<Longrightarrow> takeWhile P (name @ rest) = name @ takeWhile P rest"
  by (induction name) simp_all

lemma dropWhile_all: "\<forall>c \<in> set name. P c \<Longrightarrow> dropWhile P (name @ rest) = dropWhile P rest"
  by (induction name) simp_all

lemma match_path_shape:
  "match_path path = Some name \<longleftrightarrow>
     name \<noteq> [] \<and> (\<forall>c \<in> set name. is_word_char c)
     \<and> (path = CHR ''/'' # name \<or> path = CHR ''/'' # name @ [CHR 0x0A])"
proof
  assume m: "match_path path = Some name"
  then obtain c rest where p: "path = c # rest"
    by (cases path) (simp_all add: match_path_def)
  from m p have c: "c = CHR ''/''" and name: "name = takeWhile is_word_char rest"
    and ne: "name \<noteq> []"
    and tail: "dropWhile is_word_char rest = [] \<or> dropWhile is_word_char rest = [CHR 0x0A]"
    by (auto simp: match_path_def Let_def split: if_splits)
  have word: "\<forall>c \<in> set name. is_word_char c"
    using name by (auto dest: set_takeWhileD)
  have "name @ dropWhile is_word_char rest = rest"
    using name by simp
  with tail have "rest = name \<or> rest = name @ [CHR 0x0A]"
    by (metis append_Nil2)
  with p c ne word show "name \<noteq> [] \<and> (\<forall>c \<in> set name. is_word_char c)
     \<and> (path = CHR ''/'' # name \<or> path = CHR ''/'' # name @ [CHR 0x0A])"
    by auto
next
  assume h: "name \<noteq> [] \<and> (\<forall>c \<in> set name. is_word_char c)
     \<and> (path = CHR ''/'' # name \<or> path = CHR ''/'' # name @ [CHR 0x0A])"
  then have word: "\<forall>c \<in> set name. is_word_char c" and ne: "name \<noteq> []"
    by simp_all
  from h consider "path = CHR ''/'' # name" | "path = CHR ''/'' # name @ [CHR 0x0A]"
    by blast
  then show "match_path path = Some name"
  proof cases
    case 1
    have tw: "takeWhile is_word_char name = name" "dropWhile is_word_char name = []"
      using word by (simp_all add: takeWhile_eq_all_conv)
    show ?thesis
      using 1 ne word by (simp add: match_path_def tw)
  next
    case 2
    have tw: "takeWhile is_word_char (name @ [CHR 0x0A]) = name"
      "dropWhile is_word_char (name @ [CHR 0x0A]) = [CHR 0x0A]"
      using word by (simp_all add: takeWhile_all dropWhile_all not_word_char_examples)
    show ?thesis
      using 2 ne word by (simp add: match_path_def tw)
  qed
qed

lemma error_response:
  "error code err =
     ([SendHeaders 400,
       WriteJson (PDict [(''error'', PDict [(''code'', PInt code), (''message'', PStr err)])])],
      None)"
  by (simp add: error_def json_response_def)

lemma first_char_hd: "name \<noteq> [] \<Longrightarrow> first_char name = Inr (hd name)"
  by (cases name) simp_all

text \<open>
  C10. When the pattern matches the path, the captured operation name is not empty and
  consists of word characters. So the comparison of the name with the empty text is
  false, and reading its first character raises nothing: it is the head of the name.
\<close>

theorem path_match_captures_word_name:
  "match_path path = Some name \<Longrightarrow>
     name \<noteq> [] \<and> (\<forall>c \<in> set name. is_word_char c) \<and> first_char name = Inr (hd name)"
  using match_path_shape [of path name] by (simp add: first_char_hd)

theorem path_match_captures_word_name_witness:
  "match_path ''/issue'' = Some ''issue'' \<and> ''issue'' \<noteq> []
   \<and> is_word_char CHR ''i'' \<and> first_char ''issue'' = Inr CHR ''i''"
proof -
  have m: "match_path ''/issue'' = Some ''issue''"
    by (simp add: match_path_def is_word_char_def)
  from path_match_captures_word_name [OF m] m show ?thesis
    by simp
qed

lemma match_path_examples:
  "match_path ''/issue/extra'' = None" "match_path ''/'' = None"
  "match_path ''/_private'' = Some ''_private''"
  "match_path ''/doesNotExist'' = Some ''doesNotExist''"
  "match_path ''/issue'' = Some ''issue''"
  "match_path (''/issue'' @ [CHR 0x0A]) = Some ''issue''"
  "match_path ''/show'' = Some ''show''"
  "match_path ''/op'' = Some ''op''"
  by (simp_all add: match_path_def is_word_char_def)

lemma internal_error_serializable:
  "json_response (PDict [(''error'', PDict [(''code'', PInt 0),
      (''message'', PStr ''Internal server error''), (''details'', PStr d)])]) =
   ([WriteJson (PDict [(''error'', PDict [(''code'', PInt 0),
      (''message'', PStr ''Internal server error''), (''details'', PStr d)])])], None)"
  by (simp add: json_response_def)

lemma handle_request_call:
  assumes "match_path path = Some name" and "hd name \<noteq> CHR ''_''"
    and "\<not> is_None (getattr cls name)"
    and "call_attribute (getattr cls name)
           \<lparr>configuration = cfg,
            tx_parser = get_transaction_formatter (serialize lib) (fst (pop_txformat post_vars))\<rparr>
           (keyword_arguments (snd (pop_txformat post_vars))) = (evs, r)"
  shows "handle_request lib cfg cls path post_vars =
     (case r of
        Inl (TypeError cause) \<Rightarrow>
          (evs @ [SendHeaders 400,
             WriteJson (PDict [(''error'', PDict [(''code'', PInt 104),
               (''message'', PStr ''Invalid parameters provided'')])])], None)
      | Inl (ControllerError m) \<Rightarrow>
          (evs @ [SendHeaders 400,
             WriteJson (PDict [(''error'', PDict [(''code'', PInt 201), (''message'', PStr m)])])],
           None)
      | Inl (TransactionBuilderError k m) \<Rightarrow>
          (evs @ [SendHeaders 400,
             WriteJson (PDict [(''error'', PDict [(''code'', PInt 301), (''message'', PStr k)])])],
           None)
      | Inl e \<Rightarrow>
          (evs @ [SendHeaders 500,
             WriteJson (PDict [(''error'', PDict [(''code'', PInt 0),
               (''message'', PStr ''Internal server error''),
               (''details'', PStr (str_exn lib e))])])], None)
      | Inr result \<Rightarrow>
          if json_serializable result then (evs @ [SendHeaders 200, WriteJson result], None)
          else
            (evs @ [SendHeaders 200, SendHeaders 500,
               WriteJson (PDict [(''error'', PDict [(''code'', PInt 0),
                 (''message'', PStr ''Internal server error''),
                 (''details'', PStr (str_exn lib (TypeError (NotSerializable result))))])])],
             None))"
proof -
  from assms(1) have ne: "name \<noteq> []"
    using match_path_shape [of path name] by simp
  then have fc: "first_char name = Inr (hd name)"
    by (rule first_char_hd)
  show ?thesis
    using assms ne
    by (simp add: handle_request_def try_request_def fc Let_def split_def error_response
        internal_error_serializable json_response_def
        split: sum.splits exn.splits)
qed

lemma handle_request_rejects:
  "(match_path path = None \<longrightarrow>
      handle_request lib cfg cls path post_vars =
        ([SendHeaders 400,
          WriteJson (PDict [(''error'', PDict [(''code'', PInt 102),
            (''message'', PStr ''The request path is invalid'')])])],
         None))
   \<and> (match_path path = Some name \<and> (hd name = CHR ''_'' \<or> is_None (getattr cls name)) \<longrightarrow>
      handle_request lib cfg cls path post_vars =
        ([SendHeaders 400,
          WriteJson (PDict [(''error'', PDict [(''code'', PInt 103),
            (''message'', PStr (''The operation name '' @ name @ '' is invalid''))])])],
         None))"
proof (intro conjI impI)
  assume "match_path path = None"
  then show "handle_request lib cfg cls path post_vars =
        ([SendHeaders 400,
          WriteJson (PDict [(''error'', PDict [(''code'', PInt 102),
            (''message'', PStr ''The request path is invalid'')])])],
         None)"
    by (simp add: handle_request_def try_request_def error_response)
next
  assume h: "match_path path = Some name \<and> (hd name = CHR ''_'' \<or> is_None (getattr cls name))"
  then have "name \<noteq> []"
    using match_path_shape [of path name] by simp
  with h show "handle_request lib cfg cls path post_vars =
        ([SendHeaders 400,
          WriteJson (PDict [(''error'', PDict [(''code'', PInt 103),
            (''message'', PStr (''The operation name '' @ name @ '' is invalid''))])])],
         None)"
    by (auto simp: handle_request_def try_request_def error_response first_char_hd Let_def)
qed

text \<open>
  C4. The code at the request \<^verbatim>\<open>POST /mro\<close>, for a controller class with the one
  function \<^verbatim>\<open>issue\<close>: the class has no attribute \<^verbatim>\<open>mro\<close>, but
  \<^verbatim>\<open>getattr\<close> finds the method of that name of the metaclass, which is not
  \<^verbatim>\<open>None\<close>; the handler calls it, the call raises a \<^verbatim>\<open>TypeError\<close>, and the
  answer is the envelope of code 104 instead of code 103. The members the command line
  registers, which are the functions of the class, do not include the name.
\<close>

theorem rpc_mro_is_answered_invalid_parameters:
  "map_of [(''issue'', Function sample_ping)] ''mro'' = None
   \<and> match_path ''/mro'' = Some ''mro''
   \<and> handle_request sample_library sample_configuration [(''issue'', Function sample_ping)]
        ''/mro'' [] =
       ([SendHeaders 400,
         WriteJson (PDict [(''error'', PDict [(''code'', PInt 104),
           (''message'', PStr ''Invalid parameters provided'')])])],
        None)
   \<and> getmembers [(''issue'', Function sample_ping)] = [(''issue'', sample_ping)]"
proof -
  have path: "match_path ''/mro'' = Some ''mro''"
    by (simp add: match_path_def is_word_char_def)
  have found: "getattr [(''issue'', Function sample_ping)] ''mro'' = MetaclassMethod"
    by (simp add: getattr_def)
  have call: "call_attribute (getattr [(''issue'', Function sample_ping)] ''mro'')
           \<lparr>configuration = sample_configuration,
            tx_parser = get_transaction_formatter (serialize sample_library) (fst (pop_txformat []))\<rparr>
           (keyword_arguments (snd (pop_txformat []))) =
         ([], Inl (TypeError ArgumentMismatch))"
    by (simp add: found)
  have answer: "handle_request sample_library sample_configuration
        [(''issue'', Function sample_ping)] ''/mro'' [] =
       ([SendHeaders 400,
         WriteJson (PDict [(''error'', PDict [(''code'', PInt 104),
           (''message'', PStr ''Invalid parameters provided'')])])],
        None)"
    using handle_request_call [OF path _ _ call]
    by (simp add: found)
  have members: "getmembers [(''issue'', Function sample_ping)] = [(''issue'', sample_ping)]"
    by (simp add: getmembers_def getattr_def)
  from path answer members show ?thesis
    by simp
qed

lemma bind_named_fails: "bind_named ps kwargs = Inl e \<Longrightarrow> e = TypeError ArgumentMismatch"
  by (induction ps arbitrary: e) (auto split: option.splits sum.splits)

lemma bind_arguments_fails: "bind_arguments ps kwargs = Inl e \<Longrightarrow> e = TypeError ArgumentMismatch"
  by (auto simp: bind_arguments_def Let_def dest: bind_named_fails
      split: option.splits if_splits sum.splits prod.splits)
















text \<open>
  C2. The code at the body \<^verbatim>\<open>txformat=json\<close>: the value popped from the form is the
  list \<^verbatim>\<open>['json']\<close>, which is not equal to the text \<^verbatim>\<open>'json'\<close>, so the
  controller gets the raw formatter and the transaction is answered as hex text. The
  command line, which passes the text itself, answers the same operation with the
  structured rendering.
\<close>

theorem rpc_txformat_json_selects_raw_formatter:
  "handle_request sample_library sample_configuration [(''show'', Function show_transaction)]
     ''/show'' [(''txformat'', [''json''])] =
     ([Invoke \<lparr>configuration = sample_configuration,
               tx_parser = get_transaction_formatter (serialize sample_library)
                 (PList [PStr ''json''])\<rparr> [],
       SendHeaders 200, WriteJson (PStr ''0100'')], None)
   \<and> execute_operation sample_library sample_configuration show_transaction
       [(''txformat'', PStr ''json'')] =
     ([Invoke \<lparr>configuration = sample_configuration,
               tx_parser = get_transaction_formatter (serialize sample_library) (PStr ''json'')\<rparr> [],
       OutputJson (PDict [
         (''version'', PInt 1), (''locktime'', PInt 0),
         (''vin'', PList [PDict [(''txid'', PStr ''ab01''), (''vout'', PInt 3),
            (''sequence'', PInt 7), (''scriptSig'', PDict [(''hex'', PStr ''ff'')])]]),
         (''vout'', PList [PDict [(''value'', PInt 600), (''n'', PInt 0),
            (''scriptPubKey'', PDict [(''hex'', PStr ''0a'')])]])])], None)"
proof -
  have call: "call_attribute (getattr [(''show'', Function show_transaction)] ''show'')
      \<lparr>configuration = sample_configuration,
       tx_parser = get_transaction_formatter (serialize sample_library)
         (fst (pop_txformat [(''txformat'', [''json''])]))\<rparr>
      (keyword_arguments (snd (pop_txformat [(''txformat'', [''json''])]))) =
      ([Invoke \<lparr>configuration = sample_configuration,
               tx_parser = get_transaction_formatter (serialize sample_library)
                 (PList [PStr ''json''])\<rparr> []],
       Inr (PStr ''0100''))"
    by (simp add: getattr_def pop_txformat_def keyword_arguments_def call_function_def
        bind_arguments_def show_transaction_def self_parameter_def get_transaction_formatter_def
        sample_library_def hex_example)
  have rpc: "handle_request sample_library sample_configuration
       [(''show'', Function show_transaction)] ''/show'' [(''txformat'', [''json''])] =
     ([Invoke \<lparr>configuration = sample_configuration,
               tx_parser = get_transaction_formatter (serialize sample_library)
                 (PList [PStr ''json''])\<rparr> [],
       SendHeaders 200, WriteJson (PStr ''0100'')], None)"
    using handle_request_call [OF match_path_examples(7) _ _ call]
    by (simp add: getattr_def)
  have cli: "execute_operation sample_library sample_configuration show_transaction
       [(''txformat'', PStr ''json'')] =
     ([Invoke \<lparr>configuration = sample_configuration,
               tx_parser = get_transaction_formatter (serialize sample_library) (PStr ''json'')\<rparr> [],
       OutputJson (PDict [
         (''version'', PInt 1), (''locktime'', PInt 0),
         (''vin'', PList [PDict [(''txid'', PStr ''ab01''), (''vout'', PInt 3),
            (''sequence'', PInt 7), (''scriptSig'', PDict [(''hex'', PStr ''ff'')])]]),
         (''vout'', PList [PDict [(''value'', PInt 600), (''n'', PInt 0),
            (''scriptPubKey'', PDict [(''hex'', PStr ''0a'')])]])])], None)"
    by (simp add: execute_operation_def call_function_def bind_arguments_def
        show_transaction_def self_parameter_def get_transaction_formatter_def
        sample_transaction_def hex_example enumerate_eq_zip AList.delete_eq)
  from rpc cli show ?thesis
    by simp
qed

section \<open>Properties of the command-line router\<close>

lemma call_function_events:
  "call_function f controller kwargs = (evs, r) \<Longrightarrow> \<forall>ev \<in> set evs. \<exists>c bound. ev = Invoke c bound"
  by (auto simp: call_function_def split: sum.splits)

text \<open>
  C6. When the operation of a command-line invocation raises, nothing has been written to
  the output stream yet. For a controller error the router writes the one line
  \<^verbatim>\<open>Error: \<close> followed by the message, for a transaction-builder error the one line
  \<^verbatim>\<open>Error: \<close> followed by the name of its class, and in both cases no exception
  leaves the invocation. Any other exception leaves it, and nothing is written.
\<close>

theorem cli_reports_known_errors:
  assumes "map_of keywords ''txformat'' = Some txformat"
    and "controller = \<lparr>configuration = cfg,
           tx_parser = get_transaction_formatter (serialize lib) txformat\<rparr>"
    and "call_function function controller (AList.delete ''txformat'' keywords) = (evs, Inl e)"
  shows "(\<forall>ev \<in> set evs. \<exists>c bound. ev = Invoke c bound)
     \<and> (\<forall>m. e = ControllerError m \<longrightarrow>
           execute_operation lib cfg function keywords =
             (evs @ [OutputText (''Error: '' @ m @ [CHR 0x0A])], None))
     \<and> (\<forall>k m. e = TransactionBuilderError k m \<longrightarrow>
           execute_operation lib cfg function keywords =
             (evs @ [OutputText (''Error: '' @ k @ [CHR 0x0A])], None))
     \<and> ((\<forall>m. e \<noteq> ControllerError m) \<and> (\<forall>k m. e \<noteq> TransactionBuilderError k m) \<longrightarrow>
           execute_operation lib cfg function keywords = (evs, Some e))"
proof (intro conjI allI impI)
  show "\<forall>ev \<in> set evs. \<exists>c bound. ev = Invoke c bound"
    using assms(3) by (rule call_function_events)
next
  fix m assume "e = ControllerError m"
  with assms show "execute_operation lib cfg function keywords =
      (evs @ [OutputText (''Error: '' @ m @ [CHR 0x0A])], None)"
    by (simp add: execute_operation_def)
next
  fix k m assume "e = TransactionBuilderError k m"
  with assms show "execute_operation lib cfg function keywords =
      (evs @ [OutputText (''Error: '' @ k @ [CHR 0x0A])], None)"
    by (simp add: execute_operation_def)
next
  assume "(\<forall>m. e \<noteq> ControllerError m) \<and> (\<forall>k m. e \<noteq> TransactionBuilderError k m)"
  with assms show "execute_operation lib cfg function keywords = (evs, Some e)"
    by (cases e) (simp_all add: execute_operation_def)
qed

lemma failing_operation_cli_call:
  "call_function (failing_operation e)
     \<lparr>configuration = sample_configuration,
      tx_parser = get_transaction_formatter (serialize sample_library) (PStr ''json'')\<rparr>
     (AList.delete ''txformat'' [(''txformat'', PStr ''json'')]) =
   ([Invoke \<lparr>configuration = sample_configuration,
             tx_parser = get_transaction_formatter (serialize sample_library) (PStr ''json'')\<rparr> []],
    Inl e)"
  by (simp add: call_function_def bind_arguments_def failing_operation_def self_parameter_def
      AList.delete_eq)

lemma txformat_given: "map_of [(''txformat'', PStr ''json'')] ''txformat'' = Some (PStr ''json'')"
  by simp

theorem cli_reports_known_errors_witness:
  "execute_operation sample_library sample_configuration
     (failing_operation (ControllerError ''Insufficient funds'')) [(''txformat'', PStr ''json'')] =
     ([Invoke \<lparr>configuration = sample_configuration,
               tx_parser = get_transaction_formatter (serialize sample_library) (PStr ''json'')\<rparr> [],
       OutputText (''Error: Insufficient funds'' @ [CHR 0x0A])], None)
   \<and> execute_operation sample_library sample_configuration
     (failing_operation (TransactionBuilderError ''DustOutputError'' ''too small''))
     [(''txformat'', PStr ''json'')] =
     ([Invoke \<lparr>configuration = sample_configuration,
               tx_parser = get_transaction_formatter (serialize sample_library) (PStr ''json'')\<rparr> [],
       OutputText (''Error: DustOutputError'' @ [CHR 0x0A])], None)
   \<and> execute_operation sample_library sample_configuration
     (failing_operation (OtherException ''connection refused'')) [(''txformat'', PStr ''json'')] =
     ([Invoke \<lparr>configuration = sample_configuration,
               tx_parser = get_transaction_formatter (serialize sample_library) (PStr ''json'')\<rparr> []],
      Some (OtherException ''connection refused''))"
proof -
  note t = cli_reports_known_errors [OF txformat_given refl failing_operation_cli_call]
  have a: "execute_operation sample_library sample_configuration
     (failing_operation (ControllerError ''Insufficient funds'')) [(''txformat'', PStr ''json'')] =
     ([Invoke \<lparr>configuration = sample_configuration,
               tx_parser = get_transaction_formatter (serialize sample_library) (PStr ''json'')\<rparr> [],
       OutputText (''Error: Insufficient funds'' @ [CHR 0x0A])], None)"
    using t [of "ControllerError ''Insufficient funds''"] by simp
  have b: "execute_operation sample_library sample_configuration
     (failing_operation (TransactionBuilderError ''DustOutputError'' ''too small''))
     [(''txformat'', PStr ''json'')] =
     ([Invoke \<lparr>configuration = sample_configuration,
               tx_parser = get_transaction_formatter (serialize sample_library) (PStr ''json'')\<rparr> [],
       OutputText (''Error: DustOutputError'' @ [CHR 0x0A])], None)"
    using t [of "TransactionBuilderError ''DustOutputError'' ''too small''"] by simp
  have c: "execute_operation sample_library sample_configuration
     (failing_operation (OtherException ''connection refused'')) [(''txformat'', PStr ''json'')] =
     ([Invoke \<lparr>configuration = sample_configuration,
               tx_parser = get_transaction_formatter (serialize sample_library) (PStr ''json'')\<rparr> []],
      Some (OtherException ''connection refused''))"
    using t [of "OtherException ''connection refused''"] by simp
  from a b c show ?thesis
    by simp
qed

lemma getattr_Function: "getattr cls name = Function f \<longleftrightarrow> map_of cls name = Some (Function f)"
  by (simp add: getattr_def split: option.splits if_splits)

lemma getmembers_names:
  "map fst (getmembers cls) =
     filter (\<lambda>name. \<exists>f. map_of cls name = Some (Function f)) (sort (remdups (map fst cls)))"
proof -
  have "map fst (List.map_filter
          (\<lambda>name. case getattr cls name of Function f \<Rightarrow> Some (name, f) | _ \<Rightarrow> None) names) =
        filter (\<lambda>name. \<exists>f. map_of cls name = Some (Function f)) names" for names
    by (induction names)
      (auto simp: List.map_filter_simps getattr_Function [symmetric] split: attribute.splits)
  then show ?thesis
    by (simp add: getmembers_def)
qed

lemma getmembers_distinct: "distinct (map fst (getmembers cls))"
  by (simp add: getmembers_names)

lemma getmembers_set:
  "(name, f) \<in> set (getmembers cls) \<longleftrightarrow> map_of cls name = Some (Function f)"
proof -
  have "(name, f) \<in> set (List.map_filter
          (\<lambda>name. case getattr cls name of Function f \<Rightarrow> Some (name, f) | _ \<Rightarrow> None) names)
        \<longleftrightarrow> name \<in> set names \<and> map_of cls name = Some (Function f)" for names
    by (induction names)
      (auto simp: List.map_filter_simps getattr_Function [symmetric] split: attribute.splits)
  moreover have "map_of cls name = Some (Function f) \<Longrightarrow> name \<in> fst ` set cls"
    by (metis map_of_eq_None_iff option.distinct(1))
  ultimately show ?thesis
    by (auto simp: getmembers_def)
qed

lemma add_operations_result:
  "add_operations acc members = Inr subparsers \<Longrightarrow>
     \<exists>ops. subparsers = acc @ ops
       \<and> map (\<lambda>sp. (sp_name sp, sp_help sp, sp_func sp, Inr (sp_arguments sp))) ops =
           map (\<lambda>(name, f). (name, doc f, ExecuteOperation f, create_subparser f))
             (filter (\<lambda>(name, f). hd name \<noteq> CHR ''_'') members)"
proof (induction members arbitrary: acc)
  case Nil
  then show ?case by simp
next
  case (Cons member rest)
  obtain name f where member: "member = (name, f)"
    by (cases member)
  from Cons.prems member obtain c where c: "first_char name = Inr c"
    by (auto split: sum.splits)
  then have hd: "c = hd name"
    by (cases name) simp_all
  show ?case
  proof (cases "c = CHR ''_''")
    case True
    with Cons.prems member c have "add_operations acc rest = Inr subparsers"
      by simp
    from Cons.IH [OF this] True hd member show ?thesis
      by simp
  next
    case False
    with Cons.prems member c obtain args where args: "create_subparser f = Inr args"
      and rec: "add_operations
         (acc @ [\<lparr>sp_name = name, sp_help = doc f, sp_func = ExecuteOperation f,
                  sp_arguments = args\<rparr>]) rest = Inr subparsers"
      by (auto split: sum.splits)
    from Cons.IH [OF rec] obtain ops where
      "subparsers = (acc @ [\<lparr>sp_name = name, sp_help = doc f, sp_func = ExecuteOperation f,
                  sp_arguments = args\<rparr>]) @ ops"
      and "map (\<lambda>sp. (sp_name sp, sp_help sp, sp_func sp, Inr (sp_arguments sp))) ops =
           map (\<lambda>(name, f). (name, doc f, ExecuteOperation f, create_subparser f))
             (filter (\<lambda>(name, f). hd name \<noteq> CHR ''_'') rest)"
      by blast
    with False hd member args show ?thesis
      by (intro exI [of _ "\<lparr>sp_name = name, sp_help = doc f, sp_func = ExecuteOperation f,
                  sp_arguments = args\<rparr> # ops"]) simp
  qed
qed

text \<open>
  C3, as amended. When the router is built, its subparsers are the built-in
  \<^verbatim>\<open>server\<close> followed by one subparser for each function of the controller class
  whose name does not start with an underscore, in the order of the names, each with the
  docstring as help, the operation as handler and the arguments of its signature. Their
  names are distinct, and a name is among them exactly when the class has a function of
  that name and the name does not start with an underscore. The name \<^verbatim>\<open>server\<close> is
  not excluded.
\<close>

theorem router_registers_functions_without_underscore:
  assumes "Router_init cls = Inr subparsers"
  shows "\<exists>ops.
      subparsers =
        \<lparr>sp_name = ''server'', sp_help = Some ''Starts the Colorcore JSON/RPC server.'',
         sp_func = RunRpcServer, sp_arguments = []\<rparr> # ops
      \<and> map (\<lambda>sp. (sp_name sp, sp_help sp, sp_func sp, Inr (sp_arguments sp))) ops =
           map (\<lambda>(name, f). (name, doc f, ExecuteOperation f, create_subparser f))
             (filter (\<lambda>(name, f). hd name \<noteq> CHR ''_'') (getmembers cls))
      \<and> distinct (map sp_name ops)
      \<and> (\<forall>name. name \<in> set (map sp_name ops) \<longleftrightarrow>
            (\<exists>f. map_of cls name = Some (Function f)) \<and> hd name \<noteq> CHR ''_'')"
proof -
  from add_operations_result [OF assms [unfolded Router_init_def]] obtain ops where
    sps: "subparsers =
        [\<lparr>sp_name = ''server'', sp_help = Some ''Starts the Colorcore JSON/RPC server.'',
          sp_func = RunRpcServer, sp_arguments = []\<rparr>] @ ops"
    and ops: "map (\<lambda>sp. (sp_name sp, sp_help sp, sp_func sp, Inr (sp_arguments sp))) ops =
           map (\<lambda>(name, f). (name, doc f, ExecuteOperation f, create_subparser f))
             (filter (\<lambda>(name, f). hd name \<noteq> CHR ''_'') (getmembers cls))"
    by blast
  have "map sp_name ops =
      map fst (map (\<lambda>sp. (sp_name sp, sp_help sp, sp_func sp,
        (Inr (sp_arguments sp) :: exn + argument list))) ops)"
    by simp
  also have "\<dots> = map fst (filter (\<lambda>(name, f). hd name \<noteq> CHR ''_'') (getmembers cls))"
    unfolding ops by (simp add: case_prod_beta)
  finally have names:
    "map sp_name ops = map fst (filter (\<lambda>(name, f). hd name \<noteq> CHR ''_'') (getmembers cls))" .
  have dist: "distinct (map sp_name ops)"
    unfolding names by (rule distinct_map_filter) (rule getmembers_distinct)
  have mem: "name \<in> set (map sp_name ops) \<longleftrightarrow>
      (\<exists>f. map_of cls name = Some (Function f)) \<and> hd name \<noteq> CHR ''_''" for name
    unfolding names using getmembers_set [of name _ cls] by force
  from sps ops dist mem show ?thesis
    by (intro exI [of _ ops]) simp
qed

lemma sort_two_names:
  "sort [''_private'', ''issue''] = [''_private'', ''issue'']"
  by code_simp

lemma create_subparser_ping:
  "create_subparser sample_ping = Inr [Optional ''--txformat'' (PStr txformat_help) (PStr ''json'')]"
  by (simp add: create_subparser_def sample_ping_def self_parameter_def extra_parameters_def)

theorem router_registers_functions_without_underscore_witness:
  "Router_init [(''issue'', Function sample_ping), (''_private'', Function sample_ping)] =
     Inr [\<lparr>sp_name = ''server'', sp_help = Some ''Starts the Colorcore JSON/RPC server.'',
           sp_func = RunRpcServer, sp_arguments = []\<rparr>,
          \<lparr>sp_name = ''issue'', sp_help = None, sp_func = ExecuteOperation sample_ping,
           sp_arguments = [Optional ''--txformat'' (PStr txformat_help) (PStr ''json'')]\<rparr>]
   \<and> (\<exists>ops.
         [\<lparr>sp_name = ''server'', sp_help = Some ''Starts the Colorcore JSON/RPC server.'',
           sp_func = RunRpcServer, sp_arguments = []\<rparr>,
          \<lparr>sp_name = ''issue'', sp_help = None, sp_func = ExecuteOperation sample_ping,
           sp_arguments = [Optional ''--txformat'' (PStr txformat_help) (PStr ''json'')]\<rparr>] =
         \<lparr>sp_name = ''server'', sp_help = Some ''Starts the Colorcore JSON/RPC server.'',
          sp_func = RunRpcServer, sp_arguments = []\<rparr> # ops
         \<and> distinct (map sp_name ops)
         \<and> ''issue'' \<in> set (map sp_name ops)
         \<and> ''_private'' \<notin> set (map sp_name ops))"
proof -
  have members: "getmembers [(''issue'', Function sample_ping), (''_private'', Function sample_ping)] =
      [(''_private'', sample_ping), (''issue'', sample_ping)]"
    by (simp add: getmembers_def sort_two_names List.map_filter_simps getattr_def)
  have init: "Router_init [(''issue'', Function sample_ping), (''_private'', Function sample_ping)] =
     Inr [\<lparr>sp_name = ''server'', sp_help = Some ''Starts the Colorcore JSON/RPC server.'',
           sp_func = RunRpcServer, sp_arguments = []\<rparr>,
          \<lparr>sp_name = ''issue'', sp_help = None, sp_func = ExecuteOperation sample_ping,
           sp_arguments = [Optional ''--txformat'' (PStr txformat_help) (PStr ''json'')]\<rparr>]"
    by (simp add: Router_init_def members create_subparser_ping) (simp add: sample_ping_def)
  from router_registers_functions_without_underscore [OF init] obtain ops where
    "[\<lparr>sp_name = ''server'', sp_help = Some ''Starts the Colorcore JSON/RPC server.'',
           sp_func = RunRpcServer, sp_arguments = []\<rparr>,
          \<lparr>sp_name = ''issue'', sp_help = None, sp_func = ExecuteOperation sample_ping,
           sp_arguments = [Optional ''--txformat'' (PStr txformat_help) (PStr ''json'')]\<rparr>] =
         \<lparr>sp_name = ''server'', sp_help = Some ''Starts the Colorcore JSON/RPC server.'',
          sp_func = RunRpcServer, sp_arguments = []\<rparr> # ops"
    and "distinct (map sp_name ops)"
    and "\<forall>name. name \<in> set (map sp_name ops) \<longleftrightarrow>
            (\<exists>f. map_of [(''issue'', Function sample_ping), (''_private'', Function sample_ping)] name
                = Some (Function f)) \<and> hd name \<noteq> CHR ''_''"
    by blast
  then have "[\<lparr>sp_name = ''server'', sp_help = Some ''Starts the Colorcore JSON/RPC server.'',
           sp_func = RunRpcServer, sp_arguments = []\<rparr>,
          \<lparr>sp_name = ''issue'', sp_help = None, sp_func = ExecuteOperation sample_ping,
           sp_arguments = [Optional ''--txformat'' (PStr txformat_help) (PStr ''json'')]\<rparr>] =
         \<lparr>sp_name = ''server'', sp_help = Some ''Starts the Colorcore JSON/RPC server.'',
          sp_func = RunRpcServer, sp_arguments = []\<rparr> # ops
         \<and> distinct (map sp_name ops)
         \<and> ''issue'' \<in> set (map sp_name ops)
         \<and> ''_private'' \<notin> set (map sp_name ops)"
    by simp
  with init show ?thesis
    by blast
qed

text \<open>
  C3 as stated fails on a controller class with a function called \<^verbatim>\<open>server\<close>: it
  is registered as an operation subcommand after the built-in one, and the command line
  \<^verbatim>\<open>server\<close> then runs the operation.
\<close>

theorem router_registers_operation_named_server:
  "Router_init [(''server'', Function sample_ping)] =
     Inr [\<lparr>sp_name = ''server'', sp_help = Some ''Starts the Colorcore JSON/RPC server.'',
           sp_func = RunRpcServer, sp_arguments = []\<rparr>,
          \<lparr>sp_name = ''server'', sp_help = None, sp_func = ExecuteOperation sample_ping,
           sp_arguments = [Optional ''--txformat'' (PStr txformat_help) (PStr ''json'')]\<rparr>]
   \<and> parse sample_library sample_configuration
        [\<lparr>sp_name = ''server'', sp_help = Some ''Starts the Colorcore JSON/RPC server.'',
           sp_func = RunRpcServer, sp_arguments = []\<rparr>,
          \<lparr>sp_name = ''server'', sp_help = None, sp_func = ExecuteOperation sample_ping,
           sp_arguments = [Optional ''--txformat'' (PStr txformat_help) (PStr ''json'')]\<rparr>]
        [''server''] =
     ([Invoke \<lparr>configuration = sample_configuration,
               tx_parser = get_transaction_formatter (serialize sample_library) (PStr ''json'')\<rparr> [],
       OutputJson (PStr ''pong'')], Completed)"
proof -
  have members: "getmembers [(''server'', Function sample_ping)] = [(''server'', sample_ping)]"
    by (simp add: getmembers_def List.map_filter_simps getattr_def)
  have init: "Router_init [(''server'', Function sample_ping)] =
     Inr [\<lparr>sp_name = ''server'', sp_help = Some ''Starts the Colorcore JSON/RPC server.'',
           sp_func = RunRpcServer, sp_arguments = []\<rparr>,
          \<lparr>sp_name = ''server'', sp_help = None, sp_func = ExecuteOperation sample_ping,
           sp_arguments = [Optional ''--txformat'' (PStr txformat_help) (PStr ''json'')]\<rparr>]"
    by (simp add: Router_init_def members create_subparser_ping) (simp add: sample_ping_def)
  have run: "execute_operation sample_library sample_configuration sample_ping
      [(''txformat'', PStr ''json'')] =
     ([Invoke \<lparr>configuration = sample_configuration,
               tx_parser = get_transaction_formatter (serialize sample_library) (PStr ''json'')\<rparr> [],
       OutputJson (PStr ''pong'')], None)"
    by (simp add: execute_operation_def call_function_def bind_arguments_def sample_ping_def
        self_parameter_def AList.delete_eq)
  have "parse sample_library sample_configuration
        [\<lparr>sp_name = ''server'', sp_help = Some ''Starts the Colorcore JSON/RPC server.'',
           sp_func = RunRpcServer, sp_arguments = []\<rparr>,
          \<lparr>sp_name = ''server'', sp_help = None, sp_func = ExecuteOperation sample_ping,
           sp_arguments = [Optional ''--txformat'' (PStr txformat_help) (PStr ''json'')]\<rparr>]
        [''server''] =
     ([Invoke \<lparr>configuration = sample_configuration,
               tx_parser = get_transaction_formatter (serialize sample_library) (PStr ''json'')\<rparr> [],
       OutputJson (PStr ''pong'')], Completed)"
    by (simp add: parse_def parse_args_def run)
  with init show ?thesis
    by simp
qed

lemma option_strings_append: "option_strings (xs @ ys) = option_strings xs @ option_strings ys"
  by (induction xs rule: option_strings.induct) simp_all

lemma add_argument_result: "add_argument acc a = Inr args \<Longrightarrow> args = acc @ [a]"
  by (cases a) (auto split: if_splits)

lemma add_parameters_result:
  "add_parameters acc ps = Inr args \<Longrightarrow>
     args = acc @ map (\<lambda>p. case p_default p of
                 None \<Rightarrow> Positional (p_name p) (case p_annotation p of None \<Rightarrow> PNone | Some a \<Rightarrow> a)
               | Some d \<Rightarrow>
                   Optional (''--'' @ p_name p) (case p_annotation p of None \<Rightarrow> PNone | Some a \<Rightarrow> a) d)
            (filter (\<lambda>p. p_name p \<noteq> ''self'' \<and> p_kind p = POSITIONAL_OR_KEYWORD) ps)"
proof (induction ps arbitrary: acc)
  case Nil
  then show ?case by simp
next
  case (Cons p ps)
  show ?case
  proof (cases "p_name p \<noteq> ''self'' \<and> p_kind p = POSITIONAL_OR_KEYWORD")
    case False
    with Cons.prems have "add_parameters acc ps = Inr args"
      by (auto split: if_splits)
    from Cons.IH [OF this] False show ?thesis
      by auto
  next
    case True
    define a where "a = (case p_default p of
         None \<Rightarrow> Positional (p_name p) (case p_annotation p of None \<Rightarrow> PNone | Some a \<Rightarrow> a)
       | Some d \<Rightarrow>
           Optional (''--'' @ p_name p) (case p_annotation p of None \<Rightarrow> PNone | Some a \<Rightarrow> a) d)"
    from Cons.prems True obtain acc' where added: "add_argument acc a = Inr acc'"
      and rec: "add_parameters acc' ps = Inr args"
      by (auto simp: a_def Let_def simp del: add_argument.simps split: option.splits sum.splits)
    from add_argument_result [OF added] Cons.IH [OF rec] True show ?thesis
      by (simp add: a_def)
  qed
qed

lemma add_extra_parameters_result:
  "add_extra_parameters args extra_parameters = Inr args' \<Longrightarrow>
     args' = args @ [Optional ''--txformat'' (PStr txformat_help) (PStr ''json'')]"
  by (auto simp: extra_parameters_def simp del: add_argument.simps split: sum.splits
      dest: add_argument_result)

lemma create_subparser_result:
  assumes "create_subparser func = Inr args"
  shows "args =
     map (\<lambda>p. case p_default p of
            None \<Rightarrow> Positional (p_name p) (case p_annotation p of None \<Rightarrow> PNone | Some a \<Rightarrow> a)
          | Some d \<Rightarrow>
              Optional (''--'' @ p_name p) (case p_annotation p of None \<Rightarrow> PNone | Some a \<Rightarrow> a) d)
       (filter (\<lambda>p. p_name p \<noteq> ''self'' \<and> p_kind p = POSITIONAL_OR_KEYWORD) (parameters func))
     @ [Optional ''--txformat'' (PStr txformat_help) (PStr ''json'')]"
proof -
  from assms obtain declared where d: "add_parameters [] (parameters func) = Inr declared"
    and e: "add_extra_parameters declared extra_parameters = Inr args"
    by (auto simp: create_subparser_def split: sum.splits)
  from add_parameters_result [OF d] add_extra_parameters_result [OF e] show ?thesis
    by simp
qed

lemma add_parameters_succeeds:
  "distinct (map (\<lambda>p. ''--'' @ p_name p)
      (filter (\<lambda>p. p_name p \<noteq> ''self'' \<and> p_kind p = POSITIONAL_OR_KEYWORD \<and> p_default p \<noteq> None) ps)) \<Longrightarrow>
   \<forall>p \<in> set ps. p_name p \<noteq> ''self'' \<and> p_kind p = POSITIONAL_OR_KEYWORD \<and> p_default p \<noteq> None \<longrightarrow>
     ''--'' @ p_name p \<notin> set ([''-h'', ''--help''] @ option_strings acc) \<Longrightarrow>
   \<exists>args. add_parameters acc ps = Inr args"
proof (induction ps arbitrary: acc)
  case Nil
  then show ?case by simp
next
  case (Cons p ps)
  show ?case
  proof (cases "p_name p \<noteq> ''self'' \<and> p_kind p = POSITIONAL_OR_KEYWORD")
    case False
    with Cons.prems have "\<exists>args. add_parameters acc ps = Inr args"
      by (intro Cons.IH) auto
    with False show ?thesis
      by auto
  next
    case True
    show ?thesis
    proof (cases "p_default p")
      case None
      define acc' where "acc' = acc @ [Positional (p_name p)
          (case p_annotation p of None \<Rightarrow> PNone | Some a \<Rightarrow> a)]"
      have os: "option_strings acc' = option_strings acc"
        by (simp add: acc'_def option_strings_append)
      from Cons.prems None have "\<exists>args. add_parameters acc' ps = Inr args"
        by (intro Cons.IH) (auto simp: os)
      with True None show ?thesis
        by (simp add: acc'_def)
    next
      case (Some d)
      define acc' where "acc' = acc @ [Optional (''--'' @ p_name p)
          (case p_annotation p of None \<Rightarrow> PNone | Some a \<Rightarrow> a) d]"
      have os: "option_strings acc' = option_strings acc @ [''--'' @ p_name p]"
        by (simp add: acc'_def option_strings_append)
      from Cons.prems True Some
      have free: "''--'' @ p_name p \<notin> set ([''-h'', ''--help''] @ option_strings acc)"
        by auto
      from Cons.prems True Some have "\<exists>args. add_parameters acc' ps = Inr args"
        by (intro Cons.IH) (auto simp: os image_iff)
      with True Some free show ?thesis
        by (simp add: acc'_def)
    qed
  qed
qed

lemma option_strings_declared:
  "option_strings (map (\<lambda>p. case p_default p of
         None \<Rightarrow> Positional (p_name p) (case p_annotation p of None \<Rightarrow> PNone | Some a \<Rightarrow> a)
       | Some d \<Rightarrow>
           Optional (''--'' @ p_name p) (case p_annotation p of None \<Rightarrow> PNone | Some a \<Rightarrow> a) d)
     (filter (\<lambda>p. p_name p \<noteq> ''self'' \<and> p_kind p = POSITIONAL_OR_KEYWORD) ps)) =
   map (\<lambda>p. ''--'' @ p_name p)
     (filter (\<lambda>p. p_name p \<noteq> ''self'' \<and> p_kind p = POSITIONAL_OR_KEYWORD \<and> p_default p \<noteq> None) ps)"
  by (induction ps) (auto split: option.splits)

lemma create_subparser_succeeds:
  assumes "distinct (map p_name
       (filter (\<lambda>p. p_name p \<noteq> ''self'' \<and> p_kind p = POSITIONAL_OR_KEYWORD \<and> p_default p \<noteq> None)
          (parameters func)))"
    and "\<forall>p \<in> set (parameters func). p_kind p = POSITIONAL_OR_KEYWORD \<and> p_default p \<noteq> None \<longrightarrow>
           p_name p \<noteq> ''help'' \<and> p_name p \<noteq> ''txformat''"
  shows "\<exists>args. create_subparser func = Inr args"
proof -
  have inj: "inj (\<lambda>name. ''--'' @ name)"
    by (simp add: inj_def)
  have dist: "distinct (map (\<lambda>p. ''--'' @ p_name p)
       (filter (\<lambda>p. p_name p \<noteq> ''self'' \<and> p_kind p = POSITIONAL_OR_KEYWORD \<and> p_default p \<noteq> None)
          (parameters func)))"
    using assms(1) distinct_map [of "\<lambda>name. ''--'' @ name"] inj
    by (simp add: distinct_map inj_on_def comp_def)
  have free: "\<forall>p \<in> set (parameters func).
      p_name p \<noteq> ''self'' \<and> p_kind p = POSITIONAL_OR_KEYWORD \<and> p_default p \<noteq> None \<longrightarrow>
      ''--'' @ p_name p \<notin> set ([''-h'', ''--help''] @ option_strings [])"
    using assms(2) by auto
  from add_parameters_succeeds [OF dist free] obtain declared where
    d: "add_parameters [] (parameters func) = Inr declared"
    by blast
  have "''--txformat'' \<notin> set (option_strings declared)"
    using assms(2) unfolding add_parameters_result [OF d]
    by (auto simp: option_strings_declared)
  with d show ?thesis
    by (simp add: create_subparser_def extra_parameters_def)
qed

lemma create_subparser_sample:
  assumes "parameters f = parameters sample_operation"
  shows "create_subparser f =
     Inr [Positional ''required_a'' PNone, Optional ''--optional_b'' PNone (PInt 5),
          Optional ''--txformat'' (PStr txformat_help) (PStr ''json'')]"
  by (simp add: create_subparser_def assms sample_operation_def self_parameter_def
      extra_parameters_def)

lemma bind_arguments_sample:
  assumes "parameters f = parameters sample_operation"
  shows "bind_arguments (parameters f) [(''required_a'', x), (''optional_b'', y)] =
     Inr [(''required_a'', x), (''optional_b'', y)]"
  by (simp add: bind_arguments_def assms sample_operation_def self_parameter_def is_named_def
      Let_def del: set_filter)

lemma execute_operation_sample:
  assumes "parameters f = parameters sample_operation"
  shows "\<exists>rest. fst (execute_operation lib cfg f
       [(''required_a'', x), (''optional_b'', y), (''txformat'', PStr ''json'')]) =
     Invoke \<lparr>configuration = cfg,
             tx_parser = get_transaction_formatter (serialize lib) (PStr ''json'')\<rparr>
       [(''required_a'', x), (''optional_b'', y)] # rest"
  by (auto simp: execute_operation_def call_function_def bind_arguments_sample [OF assms]
      AList.delete_eq Let_def split: sum.splits exn.splits)

lemma parse_sample:
  assumes ps: "parameters f = parameters sample_operation"
    and init: "Router_init [(''op'', Function f)] = Inr subparsers"
    and args: "parse_args
       [Positional ''required_a'' PNone, Optional ''--optional_b'' PNone (PInt 5),
        Optional ''--txformat'' (PStr txformat_help) (PStr ''json'')] tokens =
       Parsed [(''required_a'', x), (''optional_b'', y), (''txformat'', PStr ''json'')]"
  shows "\<exists>rest. fst (parse lib cfg subparsers (''op'' # tokens)) =
     Invoke \<lparr>configuration = cfg,
             tx_parser = get_transaction_formatter (serialize lib) (PStr ''json'')\<rparr>
       [(''required_a'', x), (''optional_b'', y)] # rest"
proof -
  have members: "getmembers [(''op'', Function f)] = [(''op'', f)]"
    by (simp add: getmembers_def getattr_def)
  from init have sps: "subparsers =
      [\<lparr>sp_name = ''server'', sp_help = Some ''Starts the Colorcore JSON/RPC server.'',
        sp_func = RunRpcServer, sp_arguments = []\<rparr>,
       \<lparr>sp_name = ''op'', sp_help = doc f, sp_func = ExecuteOperation f,
        sp_arguments = [Positional ''required_a'' PNone, Optional ''--optional_b'' PNone (PInt 5),
          Optional ''--txformat'' (PStr txformat_help) (PStr ''json'')]\<rparr>]"
    by (simp add: Router_init_def members create_subparser_sample [OF ps])
  from execute_operation_sample [OF ps, of lib cfg x y] obtain rest where
    "fst (execute_operation lib cfg f
       [(''required_a'', x), (''optional_b'', y), (''txformat'', PStr ''json'')]) =
     Invoke \<lparr>configuration = cfg,
             tx_parser = get_transaction_formatter (serialize lib) (PStr ''json'')\<rparr>
       [(''required_a'', x), (''optional_b'', y)] # rest"
    by blast
  then show ?thesis
    by (auto simp: parse_def sps args split: prod.splits option.splits)
qed

text \<open>
  C5, as amended. The arguments of the subparser of an operation are, in declared order,
  one for each positional-or-keyword parameter that is not called \<^verbatim>\<open>self\<close>: a
  positional argument of its name when it has no default, the flag \<^verbatim>\<open>--name\<close>
  with its default when it has one; after them comes exactly one transport-level flag,
  \<^verbatim>\<open>--txformat\<close> with the default \<^verbatim>\<open>json\<close>. The subparser is built whenever the
  parameters with a default have distinct names and none is called \<^verbatim>\<open>help\<close> or
  \<^verbatim>\<open>txformat\<close>. For an operation declared \<^verbatim>\<open>(self, required_a, optional_b=5)\<close>
  and tokens that do not start with a dash, the command line \<^verbatim>\<open>op A\<close> starts the
  operation with \<^verbatim>\<open>optional_b\<close> bound to 5, and \<^verbatim>\<open>op A --optional_b V\<close> starts
  it with \<^verbatim>\<open>optional_b\<close> bound to the text \<^verbatim>\<open>V\<close>.
\<close>

theorem cli_grammar_follows_signature:
  "(\<forall>args declared.
      create_subparser func = Inr args
      \<and> declared = filter (\<lambda>p. p_name p \<noteq> ''self'' \<and> p_kind p = POSITIONAL_OR_KEYWORD)
                     (parameters func) \<longrightarrow>
      length args = length declared + 1
      \<and> (\<forall>i < length declared.
           (p_default (declared ! i) = None \<longrightarrow>
              args ! i = Positional (p_name (declared ! i))
                (case p_annotation (declared ! i) of None \<Rightarrow> PNone | Some a \<Rightarrow> a))
           \<and> (\<forall>d. p_default (declared ! i) = Some d \<longrightarrow>
                 args ! i = Optional (''--'' @ p_name (declared ! i))
                   (case p_annotation (declared ! i) of None \<Rightarrow> PNone | Some a \<Rightarrow> a) d))
      \<and> args ! length declared = Optional ''--txformat'' (PStr txformat_help) (PStr ''json''))
   \<and> (distinct (map p_name
          (filter (\<lambda>p. p_name p \<noteq> ''self'' \<and> p_kind p = POSITIONAL_OR_KEYWORD \<and> p_default p \<noteq> None)
             (parameters func)))
       \<and> (\<forall>p \<in> set (parameters func). p_kind p = POSITIONAL_OR_KEYWORD \<and> p_default p \<noteq> None \<longrightarrow>
             p_name p \<noteq> ''help'' \<and> p_name p \<noteq> ''txformat'') \<longrightarrow>
       (\<exists>args. create_subparser func = Inr args))
   \<and> (\<forall>f a v subparsers.
         parameters f = parameters sample_operation
         \<and> \<not> starts_with_dash a \<and> \<not> starts_with_dash v
         \<and> Router_init [(''op'', Function f)] = Inr subparsers \<longrightarrow>
         (\<exists>rest. fst (parse lib cfg subparsers [''op'', a]) =
            Invoke \<lparr>configuration = cfg,
                    tx_parser = get_transaction_formatter (serialize lib) (PStr ''json'')\<rparr>
              [(''required_a'', PStr a), (''optional_b'', PInt 5)] # rest)
         \<and> (\<exists>rest. fst (parse lib cfg subparsers [''op'', a, ''--optional_b'', v]) =
            Invoke \<lparr>configuration = cfg,
                    tx_parser = get_transaction_formatter (serialize lib) (PStr ''json'')\<rparr>
              [(''required_a'', PStr a), (''optional_b'', PStr v)] # rest))"
proof (intro conjI allI impI)
  fix args declared
  assume h: "create_subparser func = Inr args
      \<and> declared = filter (\<lambda>p. p_name p \<noteq> ''self'' \<and> p_kind p = POSITIONAL_OR_KEYWORD)
                     (parameters func)"
  note shape = create_subparser_result [of func args]
  from h shape show "length args = length declared + 1"
    by simp
  from h shape
  show "args ! length declared = Optional ''--txformat'' (PStr txformat_help) (PStr ''json'')"
    by (simp add: nth_append)
  fix i
  assume i: "i < length declared"
  {
    assume "p_default (declared ! i) = None"
    with h shape i show "args ! i = Positional (p_name (declared ! i))
        (case p_annotation (declared ! i) of None \<Rightarrow> PNone | Some a \<Rightarrow> a)"
      by (simp add: nth_append)
  next
    fix d
    assume "p_default (declared ! i) = Some d"
    with h shape i show "args ! i = Optional (''--'' @ p_name (declared ! i))
        (case p_annotation (declared ! i) of None \<Rightarrow> PNone | Some a \<Rightarrow> a) d"
      by (simp add: nth_append)
  }
next
  assume "distinct (map p_name
          (filter (\<lambda>p. p_name p \<noteq> ''self'' \<and> p_kind p = POSITIONAL_OR_KEYWORD \<and> p_default p \<noteq> None)
             (parameters func)))
       \<and> (\<forall>p \<in> set (parameters func). p_kind p = POSITIONAL_OR_KEYWORD \<and> p_default p \<noteq> None \<longrightarrow>
             p_name p \<noteq> ''help'' \<and> p_name p \<noteq> ''txformat'')"
  then show "\<exists>args. create_subparser func = Inr args"
    using create_subparser_succeeds [of func] by blast
next
  fix f a v subparsers
  assume h: "parameters f = parameters sample_operation
         \<and> \<not> starts_with_dash a \<and> \<not> starts_with_dash v
         \<and> Router_init [(''op'', Function f)] = Inr subparsers"
  then have ps: "parameters f = parameters sample_operation"
    and init: "Router_init [(''op'', Function f)] = Inr subparsers"
    by simp_all
  have one: "parse_args
       [Positional ''required_a'' PNone, Optional ''--optional_b'' PNone (PInt 5),
        Optional ''--txformat'' (PStr txformat_help) (PStr ''json'')] [a] =
       Parsed [(''required_a'', PStr a), (''optional_b'', PInt 5), (''txformat'', PStr ''json'')]"
    using h by (simp add: parse_args_def)
  from parse_sample [OF ps init one]
  show "\<exists>rest. fst (parse lib cfg subparsers [''op'', a]) =
            Invoke \<lparr>configuration = cfg,
                    tx_parser = get_transaction_formatter (serialize lib) (PStr ''json'')\<rparr>
              [(''required_a'', PStr a), (''optional_b'', PInt 5)] # rest" .
  have two: "parse_args
       [Positional ''required_a'' PNone, Optional ''--optional_b'' PNone (PInt 5),
        Optional ''--txformat'' (PStr txformat_help) (PStr ''json'')] [a, ''--optional_b'', v] =
       Parsed [(''required_a'', PStr a), (''optional_b'', PStr v), (''txformat'', PStr ''json'')]"
    using h by (simp add: parse_args_def)
  from parse_sample [OF ps init two]
  show "\<exists>rest. fst (parse lib cfg subparsers [''op'', a, ''--optional_b'', v]) =
            Invoke \<lparr>configuration = cfg,
                    tx_parser = get_transaction_formatter (serialize lib) (PStr ''json'')\<rparr>
              [(''required_a'', PStr a), (''optional_b'', PStr v)] # rest" .
qed

lemma router_sample:
  "Router_init [(''op'', Function sample_operation)] =
     Inr [\<lparr>sp_name = ''server'', sp_help = Some ''Starts the Colorcore JSON/RPC server.'',
           sp_func = RunRpcServer, sp_arguments = []\<rparr>,
          \<lparr>sp_name = ''op'', sp_help = None, sp_func = ExecuteOperation sample_operation,
           sp_arguments = [Positional ''required_a'' PNone, Optional ''--optional_b'' PNone (PInt 5),
             Optional ''--txformat'' (PStr txformat_help) (PStr ''json'')]\<rparr>]"
proof -
  have members: "getmembers [(''op'', Function sample_operation)] = [(''op'', sample_operation)]"
    by (simp add: getmembers_def getattr_def)
  show ?thesis
    by (simp add: Router_init_def members create_subparser_sample) (simp add: sample_operation_def)
qed

theorem cli_grammar_follows_signature_witness:
  "(\<exists>args. create_subparser sample_operation = Inr args
      \<and> length args = 3
      \<and> args ! 0 = Positional ''required_a'' PNone
      \<and> args ! 1 = Optional ''--optional_b'' PNone (PInt 5)
      \<and> args ! 2 = Optional ''--txformat'' (PStr txformat_help) (PStr ''json''))
   \<and> (\<exists>rest. fst (parse sample_library sample_configuration
          [\<lparr>sp_name = ''server'', sp_help = Some ''Starts the Colorcore JSON/RPC server.'',
            sp_func = RunRpcServer, sp_arguments = []\<rparr>,
           \<lparr>sp_name = ''op'', sp_help = None, sp_func = ExecuteOperation sample_operation,
            sp_arguments = [Positional ''required_a'' PNone,
              Optional ''--optional_b'' PNone (PInt 5),
              Optional ''--txformat'' (PStr txformat_help) (PStr ''json'')]\<rparr>]
          [''op'', ''VALUE_A'']) =
        Invoke \<lparr>configuration = sample_configuration,
                tx_parser = get_transaction_formatter (serialize sample_library) (PStr ''json'')\<rparr>
          [(''required_a'', PStr ''VALUE_A''), (''optional_b'', PInt 5)] # rest)
   \<and> (\<exists>rest. fst (parse sample_library sample_configuration
          [\<lparr>sp_name = ''server'', sp_help = Some ''Starts the Colorcore JSON/RPC server.'',
            sp_func = RunRpcServer, sp_arguments = []\<rparr>,
           \<lparr>sp_name = ''op'', sp_help = None, sp_func = ExecuteOperation sample_operation,
            sp_arguments = [Positional ''required_a'' PNone,
              Optional ''--optional_b'' PNone (PInt 5),
              Optional ''--txformat'' (PStr txformat_help) (PStr ''json'')]\<rparr>]
          [''op'', ''VALUE_A'', ''--optional_b'', ''9'']) =
        Invoke \<lparr>configuration = sample_configuration,
                tx_parser = get_transaction_formatter (serialize sample_library) (PStr ''json'')\<rparr>
          [(''required_a'', PStr ''VALUE_A''), (''optional_b'', PStr ''9'')] # rest)"
proof -
  note t = cli_grammar_follows_signature [of sample_operation sample_library sample_configuration]
  have declared: "filter (\<lambda>p. p_name p \<noteq> ''self'' \<and> p_kind p = POSITIONAL_OR_KEYWORD)
      (parameters sample_operation) =
      [\<lparr>p_name = ''required_a'', p_kind = POSITIONAL_OR_KEYWORD, p_default = None,
        p_annotation = None\<rparr>,
       \<lparr>p_name = ''optional_b'', p_kind = POSITIONAL_OR_KEYWORD, p_default = Some (PInt 5),
        p_annotation = None\<rparr>]"
    by (simp add: sample_operation_def self_parameter_def)
  have ok: "distinct (map p_name
          (filter (\<lambda>p. p_name p \<noteq> ''self'' \<and> p_kind p = POSITIONAL_OR_KEYWORD \<and> p_default p \<noteq> None)
             (parameters sample_operation)))
       \<and> (\<forall>p \<in> set (parameters sample_operation).
             p_kind p = POSITIONAL_OR_KEYWORD \<and> p_default p \<noteq> None \<longrightarrow>
             p_name p \<noteq> ''help'' \<and> p_name p \<noteq> ''txformat'')"
    by (simp add: sample_operation_def self_parameter_def)
  with t obtain args where args: "create_subparser sample_operation = Inr args"
    by blast
  let ?declared = "[\<lparr>p_name = ''required_a'', p_kind = POSITIONAL_OR_KEYWORD, p_default = None,
        p_annotation = None\<rparr>,
       \<lparr>p_name = ''optional_b'', p_kind = POSITIONAL_OR_KEYWORD, p_default = Some (PInt 5),
        p_annotation = None\<rparr>]"
  note grammar = t [THEN conjunct1, rule_format, OF conjI [OF args declared [symmetric]]]
  from grammar have len: "length args = 3"
    by simp
  from grammar have a2: "args ! 2 = Optional ''--txformat'' (PStr txformat_help) (PStr ''json'')"
    by (simp add: numeral_2_eq_2)
  from grammar have pointwise: "\<forall>i < length ?declared.
      (p_default (?declared ! i) = None \<longrightarrow>
         args ! i = Positional (p_name (?declared ! i))
           (case p_annotation (?declared ! i) of None \<Rightarrow> PNone | Some a \<Rightarrow> a))
      \<and> (\<forall>d. p_default (?declared ! i) = Some d \<longrightarrow>
         args ! i = Optional (''--'' @ p_name (?declared ! i))
           (case p_annotation (?declared ! i) of None \<Rightarrow> PNone | Some a \<Rightarrow> a) d)"
    by blast
  from pointwise [rule_format, of 0] have a0: "args ! 0 = Positional ''required_a'' PNone"
    by simp
  from pointwise [rule_format, of 1] have a1: "args ! 1 = Optional ''--optional_b'' PNone (PInt 5)"
    by simp
  have tokens: "\<not> starts_with_dash ''VALUE_A''" "\<not> starts_with_dash ''9''"
    by simp_all
  from t router_sample tokens have
    "(\<exists>rest. fst (parse sample_library sample_configuration
          [\<lparr>sp_name = ''server'', sp_help = Some ''Starts the Colorcore JSON/RPC server.'',
            sp_func = RunRpcServer, sp_arguments = []\<rparr>,
           \<lparr>sp_name = ''op'', sp_help = None, sp_func = ExecuteOperation sample_operation,
            sp_arguments = [Positional ''required_a'' PNone,
              Optional ''--optional_b'' PNone (PInt 5),
              Optional ''--txformat'' (PStr txformat_help) (PStr ''json'')]\<rparr>]
          [''op'', ''VALUE_A'']) =
        Invoke \<lparr>configuration = sample_configuration,
                tx_parser = get_transaction_formatter (serialize sample_library) (PStr ''json'')\<rparr>
          [(''required_a'', PStr ''VALUE_A''), (''optional_b'', PInt 5)] # rest)
   \<and> (\<exists>rest. fst (parse sample_library sample_configuration
          [\<lparr>sp_name = ''server'', sp_help = Some ''Starts the Colorcore JSON/RPC server.'',
            sp_func = RunRpcServer, sp_arguments = []\<rparr>,
           \<lparr>sp_name = ''op'', sp_help = None, sp_func = ExecuteOperation sample_operation,
            sp_arguments = [Positional ''required_a'' PNone,
              Optional ''--optional_b'' PNone (PInt 5),
              Optional ''--txformat'' (PStr txformat_help) (PStr ''json'')]\<rparr>]
          [''op'', ''VALUE_A'', ''--optional_b'', ''9'']) =
        Invoke \<lparr>configuration = sample_configuration,
                tx_parser = get_transaction_formatter (serialize sample_library) (PStr ''json'')\<rparr>
          [(''required_a'', PStr ''VALUE_A''), (''optional_b'', PStr ''9'')] # rest)"
    by blast
  with args len a0 a1 a2 show ?thesis
    by blast
qed

text \<open>
  C5 as stated fails on the operation declared \<^verbatim>\<open>(self, required_a, optional_b=5)\<close>:
  its subparser has three arguments in all, the two declared ones and the single flag
  \<^verbatim>\<open>--txformat\<close>; \<^verbatim>\<open>extra_parameters\<close> has one entry, not three.
\<close>

theorem cli_grammar_has_one_transport_flag:
  "create_subparser sample_operation =
     Inr [Positional ''required_a'' PNone, Optional ''--optional_b'' PNone (PInt 5),
          Optional ''--txformat'' (PStr txformat_help) (PStr ''json'')]
   \<and> length extra_parameters = 1"
  by (simp add: create_subparser_sample extra_parameters_def)

end
